theory Spec2Isabelle
  imports Main "HOL-Library.Sublist" "HOL-Library.AList"
begin

section \<open>The GE-Proton downloader (gloriousEggRoll.go)\<close>

text \<open>
  A shallow embedding of \<^verbatim>\<open>gloriousEggRoll.go\<close>: the release resolver
  \<^verbatim>\<open>getLatestReleaseURL\<close>, the transfer \<^verbatim>\<open>downloadLatestRelease\<close>, the
  extractor \<^verbatim>\<open>extractTarGzFile\<close> and \<^verbatim>\<open>main\<close>. The Go functions are
  translated line by line. What they call in the standard library and the operating
  system (\<^verbatim>\<open>filepath\<close>, \<^verbatim>\<open>os\<close>, \<^verbatim>\<open>io\<close>, \<^verbatim>\<open>net/http\<close>,
  \<^verbatim>\<open>encoding/json\<close>, \<^verbatim>\<open>compress/gzip\<close>, \<^verbatim>\<open>archive/tar\<close>) is modelled
  in the first subsections: a file system as a finite table, every call able to fail,
  the network and the decoders as parameters of the environment.
\<close>

subsection \<open>Data model\<close>

type_synonym bytes = "char list"

text \<open>\<^verbatim>\<open>type Asset struct\<close> and \<^verbatim>\<open>type GitHubRelease struct\<close>.\<close>

record Asset =
  Name :: string
  DownloadURL :: string

record GitHubRelease =
  TagName :: string
  Assets :: "Asset list"

text \<open>
  Go's \<^verbatim>\<open>error\<close> values. An error is tagged with the call that produced it; the
  program itself never inspects an error beyond \<^verbatim>\<open>os.IsNotExist\<close> and printing.
\<close>

datatype errno = ENOENT | ENOTDIR | EEXIST | EISDIR | ENOTEMPTY | EACCES | ENOSPC | EIO | EMFILE | EBUSY

datatype error =
    HomeError
  | StatError errno
  | MkdirError errno
  | MkdirAllError errno
  | OpenError errno
  | CreateError errno
  | RemoveError errno
  | CopyReadError string
  | CopyWriteError errno
  | GetError string
  | DecodeError string
  | GzipError string
  | TarError string
  | Errorf string

text \<open>
  A byte stream as a reader sees it: the bytes it delivers, then end of stream
  (\<open>None\<close>) or a read error.
\<close>

type_synonym stream = "bytes \<times> string option"

text \<open>
  An entry of a tar stream as \<^verbatim>\<open>tarReader.Next\<close> returns it (\<^verbatim>\<open>header.Name\<close>,
  \<^verbatim>\<open>header.Typeflag\<close>, a byte as in Go) with the payload that reading the entry
  delivers. An archive is what \<^verbatim>\<open>gzip.NewReader\<close> and the tar reader make of
  a file's bytes: a bad gzip header, or the entries in stream order followed by
  \<^verbatim>\<open>io.EOF\<close> (\<open>None\<close>) or by the error of a malformed entry.
\<close>

record tar_entry =
  hdr_Name :: string
  hdr_Typeflag :: char
  payload :: bytes
  payload_err :: "string option"

datatype archive = BadHeader string | TarStream "tar_entry list" "string option"

definition TypeReg :: char where
  "TypeReg = CHR ''0''"

definition TypeDir :: char where
  "TypeDir = CHR ''5''"

text \<open>
  The file system: a finite table from resolved paths (the list of components below
  the root) to nodes. The root is a directory and has no entry of its own.
\<close>

datatype node = Dir | File bytes

type_synonym cpath = "string list"

type_synonym filesystem = "(cpath \<times> node) list"

text \<open>
  The environment a run cannot change: \<^verbatim>\<open>$HOME\<close>, the working directory, what
  the network answers to a GET of a URL, the JSON decoder, the gzip and tar decoder,
  and the faults of the operating system (\<open>faults env k = Some (n, e)\<close>: the
  \<open>k\<close>-th file system call fails with \<open>e\<close>, after \<open>n\<close> bytes or \<open>n\<close>
  directories where the call does its work in steps).
\<close>

record env =
  HOME :: string
  cwd :: cpath
  remote :: "string \<Rightarrow> string + stream"
  json_Decode :: "stream \<Rightarrow> string + GitHubRelease"
  targz_Decode :: "bytes \<Rightarrow> archive"
  faults :: "nat \<Rightarrow> (nat \<times> errno) option"

text \<open>
  The state a run changes: the file system, the number of file system calls made, the
  URLs requested so far, and the two output streams.
\<close>

record state =
  fs :: filesystem
  clock :: nat
  net_log :: "string list"
  stdout :: "string list"
  stderr :: "string list"

subsection \<open>path/filepath\<close>

text \<open>
  \<^verbatim>\<open>strings.Split(s, "/")\<close> (the first argument of \<open>splitSlash_from\<close> is the
  element read so far) and \<^verbatim>\<open>strings.Join(elems, "/")\<close>.
\<close>

fun splitSlash_from :: "string \<Rightarrow> string \<Rightarrow> string list" where
  "splitSlash_from cur [] = [cur]"
| "splitSlash_from cur (c # cs) =
     (if c = CHR ''/'' then cur # splitSlash_from [] cs
      else splitSlash_from (cur @ [c]) cs)"

definition splitSlash :: "string \<Rightarrow> string list" where
  "splitSlash s = splitSlash_from [] s"

fun joinSlash :: "string list \<Rightarrow> string" where
  "joinSlash [] = []"
| "joinSlash [x] = x"
| "joinSlash (x # y # ys) = x @ ''/'' @ joinSlash (y # ys)"

text \<open>
  \<^verbatim>\<open>filepath.Clean\<close> on Unix, by its documented rules: empty and \<^verbatim>\<open>.\<close> elements
  go, an inner \<^verbatim>\<open>..\<close> goes with the element before it, a \<^verbatim>\<open>..\<close> at the root of a
  rooted path goes, leading \<^verbatim>\<open>..\<close> elements of a relative path stay; the empty result
  is \<^verbatim>\<open>.\<close>.
\<close>

fun clean_elems :: "bool \<Rightarrow> string list \<Rightarrow> string list \<Rightarrow> string list" where
  "clean_elems rooted out [] = out"
| "clean_elems rooted out (x # xs) =
     (if x = [] \<or> x = ''.'' then clean_elems rooted out xs
      else if x = ''..'' then
        (if out \<noteq> [] \<and> last out \<noteq> ''..'' then clean_elems rooted (butlast out) xs
         else if rooted then clean_elems rooted out xs
         else clean_elems rooted (out @ [x]) xs)
      else clean_elems rooted (out @ [x]) xs)"

definition Clean :: "string \<Rightarrow> string" where
  "Clean p =
     (if p = [] then ''.''
      else let rooted = (hd p = CHR ''/'');
               out = clean_elems rooted [] (splitSlash p)
           in if rooted then CHR ''/'' # joinSlash out
              else if out = [] then ''.'' else joinSlash out)"

text \<open>
  \<^verbatim>\<open>filepath.Join\<close>: leading empty elements are ignored, the rest is joined with
  the separator and cleaned; no element gives the empty string.
\<close>

fun Join :: "string list \<Rightarrow> string" where
  "Join [] = []"
| "Join (e # es) = (if e = [] then Join es else Clean (joinSlash (e # es)))"

text \<open>
  \<^verbatim>\<open>filepath.Ext\<close>: \<^verbatim>\<open>for i := len(path) - 1; i >= 0 && !os.IsPathSeparator(path[i]); i--
  { if path[i] == '.' { return path[i:] } }; return ""\<close>. The second argument of \<open>Ext_loop\<close>
  is \<open>i + 1\<close>.
\<close>

fun Ext_loop :: "string \<Rightarrow> nat \<Rightarrow> string" where
  "Ext_loop path 0 = []"
| "Ext_loop path (Suc i) =
     (if path ! i = CHR ''/'' then []
      else if path ! i = CHR ''.'' then drop i path
      else Ext_loop path i)"

definition Ext :: "string \<Rightarrow> string" where
  "Ext path = Ext_loop path (length path)"

subsection \<open>The file system calls of package os\<close>

text \<open>
  The kernel's path resolution, from the root for a rooted path and from the working
  directory otherwise. It is lexical: the program passes only paths that
  \<^verbatim>\<open>filepath.Join\<close> has cleaned, where \<^verbatim>\<open>..\<close> can only lead a relative path.
\<close>

fun walk :: "cpath \<Rightarrow> string list \<Rightarrow> cpath" where
  "walk c [] = c"
| "walk c (x # xs) =
     (if x = [] \<or> x = ''.'' then walk c xs
      else if x = ''..'' then walk (butlast c) xs
      else walk (c @ [x]) xs)"

definition resolve :: "env \<Rightarrow> string \<Rightarrow> cpath" where
  "resolve env p = walk (if p \<noteq> [] \<and> hd p = CHR ''/'' then [] else cwd env) (splitSlash p)"

definition node_at :: "filesystem \<Rightarrow> cpath \<Rightarrow> node option" where
  "node_at f c = (if c = [] then Some Dir else map_of f c)"

fun is_File :: "node option \<Rightarrow> bool" where
  "is_File (Some (File b)) = True"
| "is_File n = False"

text \<open>A path is blocked when one of its proper ancestors is a regular file.\<close>

definition blocked :: "filesystem \<Rightarrow> cpath \<Rightarrow> bool" where
  "blocked f c = list_ex (\<lambda>q. is_File (node_at f q)) (prefixes (butlast c))"

definition tick :: "state \<Rightarrow> state" where
  "tick s = s\<lparr>clock := Suc (clock s)\<rparr>"

text \<open>
  The error of a path that cannot be looked up or created at, if any: the empty
  path and a missing component are \<^verbatim>\<open>ENOENT\<close>, a file among the ancestors is
  \<^verbatim>\<open>ENOTDIR\<close>.
\<close>

definition os_Stat :: "env \<Rightarrow> string \<Rightarrow> state \<Rightarrow> (error + node) \<times> state" where
  "os_Stat env p s =
     (case faults env (clock s) of
        Some (n, e) \<Rightarrow> (Inl (StatError e), tick s)
      | None \<Rightarrow>
          (if p = [] then Inl (StatError ENOENT)
           else if blocked (fs s) (resolve env p) then Inl (StatError ENOTDIR)
           else (case node_at (fs s) (resolve env p) of
                   None \<Rightarrow> Inl (StatError ENOENT)
                 | Some nd \<Rightarrow> Inr nd),
           tick s))"

text \<open>\<^verbatim>\<open>os.IsNotExist(err)\<close>, on the error of a result (\<^verbatim>\<open>nil\<close> for \<open>Inr\<close>).\<close>

fun errno_of :: "error \<Rightarrow> errno option" where
  "errno_of (StatError e) = Some e"
| "errno_of (MkdirError e) = Some e"
| "errno_of (MkdirAllError e) = Some e"
| "errno_of (OpenError e) = Some e"
| "errno_of (CreateError e) = Some e"
| "errno_of (RemoveError e) = Some e"
| "errno_of (CopyWriteError e) = Some e"
| "errno_of err = None"

fun IsNotExist :: "error + 'a \<Rightarrow> bool" where
  "IsNotExist (Inl err) = (errno_of err = Some ENOENT)"
| "IsNotExist (Inr x) = False"

text \<open>\<^verbatim>\<open>os.Mkdir\<close>: one directory, whose parent must exist.\<close>

definition os_Mkdir :: "env \<Rightarrow> string \<Rightarrow> state \<Rightarrow> (error + unit) \<times> state" where
  "os_Mkdir env p s =
     (case faults env (clock s) of
        Some (n, e) \<Rightarrow> (Inl (MkdirError e), tick s)
      | None \<Rightarrow>
          (let c = resolve env p in
           if p = [] then (Inl (MkdirError ENOENT), tick s)
           else if blocked (fs s) c then (Inl (MkdirError ENOTDIR), tick s)
           else if node_at (fs s) (butlast c) = None then (Inl (MkdirError ENOENT), tick s)
           else if node_at (fs s) c \<noteq> None then (Inl (MkdirError EEXIST), tick s)
           else (Inr (), tick (s\<lparr>fs := AList.update c Dir (fs s)\<rparr>))))"

text \<open>
  \<^verbatim>\<open>os.MkdirAll\<close>: the directory and every missing parent, from the root down;
  nothing to do where a directory exists; \<^verbatim>\<open>ENOTDIR\<close> where the path or an
  ancestor is a regular file. A fault stops it after some of the directories.
\<close>

fun mkdirs :: "filesystem \<Rightarrow> cpath list \<Rightarrow> filesystem" where
  "mkdirs f [] = f"
| "mkdirs f (q # qs) =
     (case node_at f q of
        None \<Rightarrow> mkdirs (AList.update q Dir f) qs
      | Some Dir \<Rightarrow> mkdirs f qs
      | Some (File b) \<Rightarrow> f)"

definition os_MkdirAll :: "env \<Rightarrow> string \<Rightarrow> state \<Rightarrow> (error + unit) \<times> state" where
  "os_MkdirAll env p s =
     (case faults env (clock s) of
        Some (n, e) \<Rightarrow>
          (Inl (MkdirAllError e),
           tick (if p = [] then s
                 else s\<lparr>fs := mkdirs (fs s) (take n (prefixes (resolve env p)))\<rparr>))
      | None \<Rightarrow>
          (let c = resolve env p in
           if p = [] then (Inl (MkdirAllError ENOENT), tick s)
           else if list_ex (\<lambda>q. is_File (node_at (fs s) q)) (prefixes c)
             then (Inl (MkdirAllError ENOTDIR), tick s)
           else (Inr (), tick (s\<lparr>fs := mkdirs (fs s) (prefixes c)\<rparr>))))"

text \<open>
  \<^verbatim>\<open>os.Create\<close>: creates the file or truncates it; the parent must be a directory
  and the path must not be one. The handle it returns is the file's resolved path.
\<close>

definition os_Create :: "env \<Rightarrow> string \<Rightarrow> state \<Rightarrow> (error + cpath) \<times> state" where
  "os_Create env p s =
     (case faults env (clock s) of
        Some (n, e) \<Rightarrow> (Inl (CreateError e), tick s)
      | None \<Rightarrow>
          (let c = resolve env p in
           if p = [] then (Inl (CreateError ENOENT), tick s)
           else if blocked (fs s) c then (Inl (CreateError ENOTDIR), tick s)
           else if node_at (fs s) (butlast c) = None then (Inl (CreateError ENOENT), tick s)
           else if node_at (fs s) c = Some Dir then (Inl (CreateError EISDIR), tick s)
           else (Inr c, tick (s\<lparr>fs := AList.update c (File []) (fs s)\<rparr>))))"

text \<open>
  \<^verbatim>\<open>io.Copy(out, src)\<close> into an open file: the bytes the source delivers are
  appended to what the handle has written; a write fault after \<open>n\<close> bytes leaves
  the first \<open>n\<close>, a read error of the source comes after all its bytes are written.
  The result is the number of bytes copied.
\<close>

definition written :: "filesystem \<Rightarrow> cpath \<Rightarrow> bytes" where
  "written f c = (case map_of f c of Some (File b) \<Rightarrow> b | _ \<Rightarrow> [])"

definition io_Copy :: "env \<Rightarrow> cpath \<Rightarrow> stream \<Rightarrow> state \<Rightarrow> (error + nat) \<times> state" where
  "io_Copy env out src s =
     (case (case faults env (clock s) of
              Some (n, e) \<Rightarrow> if n < length (fst src) then Some (n, e) else None
            | None \<Rightarrow> None) of
        Some (n, e) \<Rightarrow>
          (Inl (CopyWriteError e),
           tick (s\<lparr>fs := AList.update out (File (written (fs s) out @ take n (fst src))) (fs s)\<rparr>))
      | None \<Rightarrow>
          (case snd src of
             Some m \<Rightarrow> Inl (CopyReadError m)
           | None \<Rightarrow> Inr (length (fst src)),
           tick (s\<lparr>fs := AList.update out (File (written (fs s) out @ fst src)) (fs s)\<rparr>)))"

text \<open>
  \<^verbatim>\<open>os.Open\<close>: the node a read-only handle reads from (a directory opens, and
  every read of it fails).
\<close>

definition os_Open :: "env \<Rightarrow> string \<Rightarrow> state \<Rightarrow> (error + node) \<times> state" where
  "os_Open env p s =
     (case faults env (clock s) of
        Some (n, e) \<Rightarrow> (Inl (OpenError e), tick s)
      | None \<Rightarrow>
          (if p = [] then Inl (OpenError ENOENT)
           else if blocked (fs s) (resolve env p) then Inl (OpenError ENOTDIR)
           else (case node_at (fs s) (resolve env p) of
                   None \<Rightarrow> Inl (OpenError ENOENT)
                 | Some nd \<Rightarrow> Inr nd),
           tick s))"

text \<open>\<^verbatim>\<open>os.Remove\<close>: a file, or a directory that is empty and not the root.\<close>

definition has_children :: "filesystem \<Rightarrow> cpath \<Rightarrow> bool" where
  "has_children f c = list_ex (\<lambda>kv. fst kv \<noteq> [] \<and> butlast (fst kv) = c) f"

definition os_Remove :: "env \<Rightarrow> string \<Rightarrow> state \<Rightarrow> (error + unit) \<times> state" where
  "os_Remove env p s =
     (case faults env (clock s) of
        Some (n, e) \<Rightarrow> (Inl (RemoveError e), tick s)
      | None \<Rightarrow>
          (let c = resolve env p in
           if p = [] then (Inl (RemoveError ENOENT), tick s)
           else if blocked (fs s) c then (Inl (RemoveError ENOTDIR), tick s)
           else if node_at (fs s) c = None then (Inl (RemoveError ENOENT), tick s)
           else if c = [] then (Inl (RemoveError EBUSY), tick s)
           else if node_at (fs s) c = Some Dir \<and> has_children (fs s) c
             then (Inl (RemoveError ENOTEMPTY), tick s)
           else (Inr (), tick (s\<lparr>fs := AList.delete c (fs s)\<rparr>))))"

text \<open>\<^verbatim>\<open>os.UserHomeDir\<close> on Unix: \<^verbatim>\<open>$HOME\<close>, an error when it is empty.\<close>

definition UserHomeDir :: "env \<Rightarrow> error + string" where
  "UserHomeDir env = (if HOME env = [] then Inl HomeError else Inr (HOME env))"

subsection \<open>Network, decoders, output\<close>

text \<open>\<^verbatim>\<open>http.Get\<close>: the request is logged, the answer is the environment's.\<close>

definition http_Get :: "env \<Rightarrow> string \<Rightarrow> state \<Rightarrow> (error + stream) \<times> state" where
  "http_Get env url s =
     (case remote env url of Inl m \<Rightarrow> Inl (GetError m) | Inr body \<Rightarrow> Inr body,
      s\<lparr>net_log := net_log s @ [url]\<rparr>)"

text \<open>\<^verbatim>\<open>json.NewDecoder(resp.Body).Decode(&release)\<close>.\<close>

definition Decode :: "env \<Rightarrow> stream \<Rightarrow> error + GitHubRelease" where
  "Decode env body = (case json_Decode env body of Inl m \<Rightarrow> Inl (DecodeError m) | Inr r \<Rightarrow> Inr r)"

text \<open>
  \<^verbatim>\<open>gzip.NewReader(file)\<close> followed by \<^verbatim>\<open>tar.NewReader\<close>: the entries the tar
  reader will deliver and what ends them, or the error of the gzip header.
\<close>

definition gzip_NewReader :: "env \<Rightarrow> node \<Rightarrow> error + (tar_entry list \<times> string option)" where
  "gzip_NewReader env file =
     (case file of
        Dir \<Rightarrow> Inl (GzipError ''read: is a directory'')
      | File b \<Rightarrow>
          (case targz_Decode env b of
             BadHeader m \<Rightarrow> Inl (GzipError m)
           | TarStream es t \<Rightarrow> Inr (es, t)))"

definition nl :: string where
  "nl = [CHR 0x0A]"

definition Printf :: "string \<Rightarrow> state \<Rightarrow> state" where
  "Printf msg s = s\<lparr>stdout := stdout s @ [msg]\<rparr>"

definition Fprintf_Stderr :: "string \<Rightarrow> state \<Rightarrow> state" where
  "Fprintf_Stderr msg s = s\<lparr>stderr := stderr s @ [msg]\<rparr>"

text \<open>The text of an error under \<^verbatim>\<open>%v\<close>; no property below depends on the wording.\<close>

fun errno_text :: "errno \<Rightarrow> string" where
  "errno_text ENOENT = ''no such file or directory''"
| "errno_text ENOTDIR = ''not a directory''"
| "errno_text EEXIST = ''file exists''"
| "errno_text EISDIR = ''is a directory''"
| "errno_text ENOTEMPTY = ''directory not empty''"
| "errno_text EACCES = ''permission denied''"
| "errno_text ENOSPC = ''no space left on device''"
| "errno_text EIO = ''input/output error''"
| "errno_text EMFILE = ''too many open files''"
| "errno_text EBUSY = ''device or resource busy''"

fun Error :: "error \<Rightarrow> string" where
  "Error HomeError = ''$HOME is not defined''"
| "Error (StatError e) = ''stat: '' @ errno_text e"
| "Error (MkdirError e) = ''mkdir: '' @ errno_text e"
| "Error (MkdirAllError e) = ''mkdir: '' @ errno_text e"
| "Error (OpenError e) = ''open: '' @ errno_text e"
| "Error (CreateError e) = ''open: '' @ errno_text e"
| "Error (RemoveError e) = ''remove: '' @ errno_text e"
| "Error (CopyReadError m) = m"
| "Error (CopyWriteError e) = ''write: '' @ errno_text e"
| "Error (GetError m) = m"
| "Error (DecodeError m) = m"
| "Error (GzipError m) = m"
| "Error (TarError m) = m"
| "Error (Errorf m) = m"

subsection \<open>getLatestReleaseURL\<close>

text \<open>
  The loop over \<^verbatim>\<open>release.Assets\<close>; the first argument is the variable
  \<^verbatim>\<open>tarGzDownloadURL\<close>, the result its value when the loop ends or breaks.
\<close>

fun getLatestReleaseURL_loop :: "string \<Rightarrow> Asset list \<Rightarrow> string" where
  "getLatestReleaseURL_loop tarGzDownloadURL [] = tarGzDownloadURL"
| "getLatestReleaseURL_loop tarGzDownloadURL (asset # assets) =
     (if Ext (Name asset) = ''.gz'' then DownloadURL asset
      else getLatestReleaseURL_loop tarGzDownloadURL assets)"

definition apiURL :: "string \<Rightarrow> string \<Rightarrow> string" where
  "apiURL owner repo = ''https://api.github.com/repos/'' @ owner @ ''/'' @ repo @ ''/releases/latest''"

definition getLatestReleaseURL ::
  "env \<Rightarrow> string \<Rightarrow> string \<Rightarrow> state \<Rightarrow> (error + string \<times> string) \<times> state" where
  "getLatestReleaseURL env owner repo s =
     (case http_Get env (apiURL owner repo) s of
        (Inl err, s1) \<Rightarrow> (Inl err, s1)
      | (Inr body, s1) \<Rightarrow>
          (case Decode env body of
             Inl err \<Rightarrow> (Inl err, s1)
           | Inr release \<Rightarrow>
               (let tarGzDownloadURL = getLatestReleaseURL_loop [] (Assets release) in
                if tarGzDownloadURL = []
                then (Inl (Errorf ''no .tar.gz file found in the latest release''), s1)
                else (Inr (TagName release, tarGzDownloadURL), s1))))"

subsection \<open>downloadLatestRelease\<close>

definition downloadLatestRelease ::
  "env \<Rightarrow> string \<Rightarrow> string \<Rightarrow> state \<Rightarrow> (error + unit) \<times> state" where
  "downloadLatestRelease env url outputPath s =
     (case http_Get env url s of
        (Inl err, s1) \<Rightarrow> (Inl err, s1)
      | (Inr body, s1) \<Rightarrow>
          (case os_Create env outputPath s1 of
             (Inl err, s2) \<Rightarrow> (Inl err, s2)
           | (Inr out, s2) \<Rightarrow>
               (case io_Copy env out body s2 of
                  (Inl err, s3) \<Rightarrow> (Inl err, s3)
                | (Inr n, s3) \<Rightarrow> (Inr (), s3))))"

subsection \<open>extractTarGzFile\<close>

text \<open>
  The body of the \<^verbatim>\<open>for\<close> loop for one entry that \<^verbatim>\<open>tarReader.Next\<close> returned:
  the output path and the \<^verbatim>\<open>switch header.Typeflag\<close>.
\<close>

definition extractTarGzFile_entry ::
  "env \<Rightarrow> string \<Rightarrow> tar_entry \<Rightarrow> state \<Rightarrow> (error + unit) \<times> state" where
  "extractTarGzFile_entry env outputFolderPath header s =
     (let outputPath = Join [outputFolderPath, hdr_Name header] in
      if hdr_Typeflag header = TypeDir then os_MkdirAll env outputPath s
      else if hdr_Typeflag header = TypeReg then
        (case os_Create env outputPath s of
           (Inl err, s1) \<Rightarrow> (Inl err, s1)
         | (Inr outFile, s1) \<Rightarrow>
             (case io_Copy env outFile (payload header, payload_err header) s1 of
                (Inl err, s2) \<Rightarrow> (Inl err, s2)
              | (Inr n, s2) \<Rightarrow> (Inr (), s2)))
      else (Inr (), s))"

text \<open>
  The \<^verbatim>\<open>for\<close> loop: the entries still to come, and what \<^verbatim>\<open>Next\<close> returns after
  the last of them (\<open>None\<close> for \<^verbatim>\<open>io.EOF\<close>).
\<close>

fun extractTarGzFile_loop ::
  "env \<Rightarrow> string \<Rightarrow> tar_entry list \<Rightarrow> string option \<Rightarrow> state \<Rightarrow> (error + unit) \<times> state" where
  "extractTarGzFile_loop env outputFolderPath [] None s = (Inr (), s)"
| "extractTarGzFile_loop env outputFolderPath [] (Some m) s = (Inl (TarError m), s)"
| "extractTarGzFile_loop env outputFolderPath (header # rest) t s =
     (case extractTarGzFile_entry env outputFolderPath header s of
        (Inl err, s1) \<Rightarrow> (Inl err, s1)
      | (Inr u, s1) \<Rightarrow> extractTarGzFile_loop env outputFolderPath rest t s1)"

definition extractTarGzFile ::
  "env \<Rightarrow> string \<Rightarrow> string \<Rightarrow> state \<Rightarrow> (error + unit) \<times> state" where
  "extractTarGzFile env tarGzPath outputFolderPath s =
     (case os_Open env tarGzPath s of
        (Inl err, s1) \<Rightarrow> (Inl err, s1)
      | (Inr file, s1) \<Rightarrow>
          (case gzip_NewReader env file of
             Inl err \<Rightarrow> (Inl err, s1)
           | Inr (entries, t) \<Rightarrow> extractTarGzFile_loop env outputFolderPath entries t s1))"

subsection \<open>main\<close>

text \<open>
  Lines 26 to 53 of \<^verbatim>\<open>main\<close>: the home directory, the compatibility tools folder,
  created when \<^verbatim>\<open>os.Stat\<close> says it does not exist. The result is the exit status
  where the process exits here, and the folder's path otherwise.
\<close>

definition main_folder :: "env \<Rightarrow> state \<Rightarrow> (int + string) \<times> state" where
  "main_folder env s =
     (case UserHomeDir env of
        Inl err \<Rightarrow>
          (Inl 1, Fprintf_Stderr (''Error getting home directory: '' @ Error err @ nl) s)
      | Inr homeDir \<Rightarrow>
          (let steamCompatabilityFolderPath =
                 Join [homeDir, drop 2 ''~/.steam/steam/compatibilitytools.d/''] in
           case os_Stat env steamCompatabilityFolderPath s of
             (r, s1) \<Rightarrow>
               if IsNotExist r then
                 (case os_Mkdir env steamCompatabilityFolderPath s1 of
                    (Inl err, s2) \<Rightarrow>
                      (Inl 1,
                       Fprintf_Stderr
                         (''Could not find or create: '' @ steamCompatabilityFolderPath @ nl) s2)
                  | (Inr u, s2) \<Rightarrow> (Inr steamCompatabilityFolderPath, s2))
               else (Inr steamCompatabilityFolderPath, s1)))"

text \<open>Lines 55 to 101 of \<^verbatim>\<open>main\<close>, from the folder's path on.\<close>

definition main_sync :: "env \<Rightarrow> string \<Rightarrow> state \<Rightarrow> int \<times> state" where
  "main_sync env steamCompatabilityFolderPath s =
     (case getLatestReleaseURL env ''GloriousEggroll'' ''proton-ge-custom'' s of
        (Inl err, s1) \<Rightarrow>
          (1, Fprintf_Stderr
                (''Error fetching latest release information: '' @ Error err @ nl) s1)
      | (Inr (tagName, tarGzDownloadURL), s1) \<Rightarrow>
          (let GEFilePathWithLatestTagName = Join [steamCompatabilityFolderPath, tagName] in
           case os_Stat env GEFilePathWithLatestTagName s1 of
             (Inr info, s2) \<Rightarrow>
               (0, Printf (''The latest version of GE-Proton, '' @ tagName
                             @ '', is already installed. Exiting...'' @ nl) s2)
           | (Inl err0, s2) \<Rightarrow>
               (let newGEFileNameTarGz = ''GE-Proton-'' @ tagName @ ''.tar.gz'';
                    newGEFTarGzFolderPath = Join [steamCompatabilityFolderPath, newGEFileNameTarGz];
                    s3 = Printf (''Downloading .tar.gz file from '' @ tarGzDownloadURL @ '' to ''
                                   @ newGEFTarGzFolderPath @ ''...'' @ nl) s2
                in
                case downloadLatestRelease env tarGzDownloadURL newGEFTarGzFolderPath s3 of
                  (Inl err, s4) \<Rightarrow>
                    (1, Fprintf_Stderr (''Error downloading .tar.gz file: '' @ Error err @ nl) s4)
                | (Inr u, s4) \<Rightarrow>
                    (let s5 = Printf (''Extracting '' @ newGEFTarGzFolderPath @ '' to ''
                                        @ steamCompatabilityFolderPath @ ''...'' @ nl)
                                (Printf (''.tar.gz file downloaded successfully to ''
                                           @ newGEFTarGzFolderPath @ nl) s4)
                     in
                     case extractTarGzFile env newGEFTarGzFolderPath steamCompatabilityFolderPath s5 of
                       (Inl err, s6) \<Rightarrow>
                         (1, Fprintf_Stderr (''Error extracting .tar.gz file: '' @ Error err @ nl) s6)
                     | (Inr u, s6) \<Rightarrow>
                         (let s7 = Printf (''Removing the .tar.gz file '' @ newGEFTarGzFolderPath
                                             @ ''...'' @ nl)
                                     (Printf (''Extraction successful!'' @ nl) s6)
                          in
                          case os_Remove env newGEFTarGzFolderPath s7 of
                            (Inl err, s8) \<Rightarrow>
                              (1, Fprintf_Stderr
                                    (''Error removing .tar.gz file: '' @ Error err @ nl) s8)
                          | (Inr u, s8) \<Rightarrow>
                              (0, Printf (''.tar.gz file removed successfully.'' @ nl) s8))))))"

definition main :: "env \<Rightarrow> state \<Rightarrow> int \<times> state" where
  "main env s =
     (case main_folder env s of
        (Inl status, s1) \<Rightarrow> (status, s1)
      | (Inr steamCompatabilityFolderPath, s1) \<Rightarrow> main_sync env steamCompatabilityFolderPath s1)"

subsection \<open>Concrete environments and states\<close>

text \<open>
  An environment with \<^verbatim>\<open>$HOME\<close> \<^verbatim>\<open>/h\<close>, a network that answers every GET (with
  the URL as body), a JSON decoder that yields the given release, an archive decoder
  that yields the given archive, and no faults; and the state of a fresh run on a
  given file system.
\<close>

definition demo_env :: "GitHubRelease \<Rightarrow> archive \<Rightarrow> env" where
  "demo_env release ar =
     \<lparr>HOME = ''/h'', cwd = [], remote = (\<lambda>url. Inr (url, None)),
      json_Decode = (\<lambda>body. Inr release), targz_Decode = (\<lambda>b. ar),
      faults = (\<lambda>k. None)\<rparr>"

definition demo_state :: "filesystem \<Rightarrow> state" where
  "demo_state f = \<lparr>fs = f, clock = 0, net_log = [], stdout = [], stderr = []\<rparr>"

text \<open>A release whose first \<^verbatim>\<open>.gz\<close> asset has an empty download URL.\<close>

definition release_empty_url :: GitHubRelease where
  "release_empty_url =
     \<lparr>TagName = ''v1.2.3'',
      Assets = [\<lparr>Name = ''readme.txt'', DownloadURL = ''http://x/readme.txt''\<rparr>,
                \<lparr>Name = ''pkg-v1.2.3.tar.gz'', DownloadURL = []\<rparr>,
                \<lparr>Name = ''other.tar.gz'', DownloadURL = ''http://x/other.tar.gz''\<rparr>]\<rparr>"

text \<open>
  The release of the specification's end-to-end scenario, with a second \<^verbatim>\<open>.gz\<close>
  asset after the first; and a release with no \<^verbatim>\<open>.gz\<close> asset.
\<close>

definition release_scenario :: GitHubRelease where
  "release_scenario =
     \<lparr>TagName = ''v1.2.3'',
      Assets = [\<lparr>Name = ''readme.txt'', DownloadURL = ''http://x/readme.txt''\<rparr>,
                \<lparr>Name = ''pkg-v1.2.3.tar.gz'', DownloadURL = ''http://x/pkg.tar.gz''\<rparr>,
                \<lparr>Name = ''other.tar.gz'', DownloadURL = ''http://x/other.tar.gz''\<rparr>]\<rparr>"

definition release_no_match :: GitHubRelease where
  "release_no_match =
     \<lparr>TagName = ''v1.2.3'',
      Assets = [\<lparr>Name = ''readme.txt'', DownloadURL = ''http://x/readme.txt''\<rparr>,
                \<lparr>Name = ''pkg-v1.2.3.zip'', DownloadURL = ''http://x/pkg.zip''\<rparr>]\<rparr>"

text \<open>
  An archive with a directory, a symbolic link (type flag \<^verbatim>\<open>'2'\<close>) and a regular
  file; the same without the link; and an entry whose name leaves the destination.
\<close>

definition entry_dir :: tar_entry where
  "entry_dir = \<lparr>hdr_Name = ''bin/'', hdr_Typeflag = TypeDir, payload = [], payload_err = None\<rparr>"

definition entry_link :: tar_entry where
  "entry_link = \<lparr>hdr_Name = ''bin/sh'', hdr_Typeflag = CHR ''2'', payload = [], payload_err = None\<rparr>"

definition entry_run :: tar_entry where
  "entry_run = \<lparr>hdr_Name = ''bin/run'', hdr_Typeflag = TypeReg, payload = ''ok'', payload_err = None\<rparr>"

definition entry_escape :: tar_entry where
  "entry_escape =
     \<lparr>hdr_Name = ''../../etc/passwd'', hdr_Typeflag = TypeReg, payload = ''root'', payload_err = None\<rparr>"

definition fs_d :: filesystem where
  "fs_d = [([''h''], Dir), ([''h'', ''d''], Dir), ([''etc''], Dir)]"

text \<open>A regular file entry whose directory no earlier entry creates.\<close>

definition entry_orphan :: tar_entry where
  "entry_orphan = \<lparr>hdr_Name = ''lib/so'', hdr_Typeflag = TypeReg, payload = ''elf'', payload_err = None\<rparr>"

definition fs_a :: filesystem where
  "fs_a = [([''h''], Dir), ([''h'', ''d''], Dir), ([''h'', ''d'', ''a.tar.gz''], File ''gz'')]"

text \<open>
  Names for values \<^verbatim>\<open>main\<close> computes on its way: the path of the temporary
  archive (\<^verbatim>\<open>newGEFTarGzFolderPath\<close>) and the state after the progress messages
  printed before the download, before the extraction and before the removal.
\<close>

definition main_tarGzPath :: "string \<Rightarrow> string \<Rightarrow> string" where
  "main_tarGzPath folder tagName = Join [folder, ''GE-Proton-'' @ tagName @ ''.tar.gz'']"

definition main_downloading :: "string \<Rightarrow> string \<Rightarrow> state \<Rightarrow> state" where
  "main_downloading url path s =
     Printf (''Downloading .tar.gz file from '' @ url @ '' to '' @ path @ ''...'' @ nl) s"

definition main_extracting :: "string \<Rightarrow> string \<Rightarrow> state \<Rightarrow> state" where
  "main_extracting path folder s =
     Printf (''Extracting '' @ path @ '' to '' @ folder @ ''...'' @ nl)
       (Printf (''.tar.gz file downloaded successfully to '' @ path @ nl) s)"

definition main_removing :: "string \<Rightarrow> state \<Rightarrow> state" where
  "main_removing path s =
     Printf (''Removing the .tar.gz file '' @ path @ ''...'' @ nl)
       (Printf (''Extraction successful!'' @ nl) s)"

text \<open>
  A file system with a destination \<^verbatim>\<open>/h/d\<close> that holds an archive, and a
  directory \<^verbatim>\<open>/etc\<close> outside the destination.
\<close>

definition fs_b :: filesystem where
  "fs_b = [([''h''], Dir), ([''h'', ''d''], Dir), ([''etc''], Dir),
           ([''h'', ''d'', ''a.tar.gz''], File ''gz'')]"

text \<open>
  A file system with the compatibility tools folder of \<^verbatim>\<open>$HOME = /h\<close>; an
  environment in which the ninth file system call of a run, the removal of the
  temporary archive, fails.
\<close>

definition fs_home :: filesystem where
  "fs_home = [([''h''], Dir), ([''h'', ''.steam''], Dir), ([''h'', ''.steam'', ''steam''], Dir),
              ([''h'', ''.steam'', ''steam'', ''compatibilitytools.d''], Dir)]"

definition env_remove_fault :: env where
  "env_remove_fault =
     (demo_env release_scenario (TarStream [entry_dir, entry_run] None))
       \<lparr>faults := \<lambda>k. if k = 8 then Some (0, EACCES) else None\<rparr>"

text \<open>The states that run passes through, up to the removal.\<close>

definition cleanup_folder :: string where
  "cleanup_folder = ''/h/.steam/steam/compatibilitytools.d''"

definition cleanup_path :: string where
  "cleanup_path = ''/h/.steam/steam/compatibilitytools.d/GE-Proton-v1.2.3.tar.gz''"

definition cleanup_s1 :: state where
  "cleanup_s1 = (demo_state fs_home)\<lparr>clock := 1\<rparr>"

definition cleanup_s3 :: state where
  "cleanup_s3 =
     (demo_state fs_home)\<lparr>clock := 2, net_log := [apiURL ''GloriousEggroll'' ''proton-ge-custom'']\<rparr>"

definition cleanup_s4 :: state where
  "cleanup_s4 =
     (main_downloading ''http://x/pkg.tar.gz'' cleanup_path cleanup_s3)
       \<lparr>fs := fs_home @ [([''h'', ''.steam'', ''steam'', ''compatibilitytools.d'',
                            ''GE-Proton-v1.2.3.tar.gz''], File ''http://x/pkg.tar.gz'')],
        clock := 4,
        net_log := [apiURL ''GloriousEggroll'' ''proton-ge-custom'', ''http://x/pkg.tar.gz'']\<rparr>"

definition cleanup_s6 :: state where
  "cleanup_s6 =
     (main_extracting cleanup_path cleanup_folder cleanup_s4)
       \<lparr>fs := fs cleanup_s4
               @ [([''h'', ''.steam'', ''steam'', ''compatibilitytools.d'', ''bin''], Dir),
                  ([''h'', ''.steam'', ''steam'', ''compatibilitytools.d'', ''bin'', ''run''],
                   File ''ok'')],
        clock := 8\<rparr>"



text \<open>The resolved output path of an entry extracted into a destination directory.\<close>

definition entry_target :: "env \<Rightarrow> string \<Rightarrow> tar_entry \<Rightarrow> cpath" where
  "entry_target env d e = resolve env (Join [d, hdr_Name e])"

text \<open>
  An archive with a nested directory structure: a directory and a file in it, a
  directory two levels deep whose parent no entry names, and a file in that.
\<close>

definition entry_docdir :: tar_entry where
  "entry_docdir = \<lparr>hdr_Name = ''share/doc/'', hdr_Typeflag = TypeDir, payload = [], payload_err = None\<rparr>"

definition entry_doc :: tar_entry where
  "entry_doc = \<lparr>hdr_Name = ''share/doc/readme'', hdr_Typeflag = TypeReg, payload = ''hi'', payload_err = None\<rparr>"

definition archive_tree :: "tar_entry list" where
  "archive_tree = [entry_dir, entry_run, entry_docdir, entry_doc]"

section \<open>Properties\<close>

subsection \<open>The release resolver\<close>

text \<open>
  \<^verbatim>\<open>filepath.Ext(name) == ".gz"\<close> holds exactly when the name ends in
  \<^verbatim>\<open>.gz\<close>.
\<close>

lemma Ext_loop_drop: "Ext_loop path n \<noteq> [] \<Longrightarrow> \<exists>i<n. Ext_loop path n = drop i path"
  by (induction n) (auto split: if_splits intro: less_SucI)

lemma Ext_suffix: "Ext path = e \<Longrightarrow> e \<noteq> [] \<Longrightarrow> suffix e path"
  unfolding Ext_def using Ext_loop_drop [of path "length path"]
  by (auto simp: suffix_drop)

lemma Ext_of_gz: "Ext (pre @ ''.gz'') = ''.gz''"
proof -
  have "length (pre @ ''.gz'') = Suc (Suc (Suc (length pre)))" by simp
  then show ?thesis
    by (simp add: Ext_def nth_append del: length_append)
qed

lemma Ext_gz_iff: "Ext path = ''.gz'' \<longleftrightarrow> suffix ''.gz'' path"
proof
  assume "Ext path = ''.gz''"
  then show "suffix ''.gz'' path" by (rule Ext_suffix) simp
next
  assume "suffix ''.gz'' path"
  then obtain pre where "path = pre @ ''.gz''" by (auto simp: suffix_def)
  then show "Ext path = ''.gz''" by (simp only: Ext_of_gz)
qed

lemma loop_no_match:
  "\<forall>a\<in>set assets. \<not> suffix ''.gz'' (Name a) \<Longrightarrow> getLatestReleaseURL_loop u assets = u"
  by (induction assets) (simp_all add: Ext_gz_iff)

lemma loop_first_match:
  "\<forall>x\<in>set pre. \<not> suffix ''.gz'' (Name x) \<Longrightarrow> suffix ''.gz'' (Name a) \<Longrightarrow>
   getLatestReleaseURL_loop u (pre @ a # post) = DownloadURL a"
  by (induction pre) (simp_all add: Ext_gz_iff)

lemma resolver_unfold:
  "remote env (apiURL owner repo) = Inr body \<Longrightarrow> json_Decode env body = Inr release \<Longrightarrow>
   getLatestReleaseURL env owner repo s =
     (if getLatestReleaseURL_loop [] (Assets release) = []
      then Inl (Errorf ''no .tar.gz file found in the latest release'')
      else Inr (TagName release, getLatestReleaseURL_loop [] (Assets release)),
      s\<lparr>net_log := net_log s @ [apiURL owner repo]\<rparr>)"
  by (simp add: getLatestReleaseURL_def http_Get_def Decode_def Let_def)

text \<open>
  C10. When the request and the decoding succeed and the first asset whose name ends
  in \<^verbatim>\<open>.gz\<close> has an empty download URL, the resolver fails with the error
  "no .tar.gz file found in the latest release", whatever assets follow it: the scan
  stops at the first name match, so a later \<^verbatim>\<open>.gz\<close> asset with a URL is never
  considered.
\<close>

theorem first_match_with_empty_url:
  assumes "remote env (apiURL owner repo) = Inr body"
    and "json_Decode env body = Inr release"
    and "Assets release = pre @ a # post"
    and "\<forall>x\<in>set pre. \<not> suffix ''.gz'' (Name x)"
    and "suffix ''.gz'' (Name a)"
    and "DownloadURL a = []"
  shows "getLatestReleaseURL env owner repo s =
           (Inl (Errorf ''no .tar.gz file found in the latest release''),
            s\<lparr>net_log := net_log s @ [apiURL owner repo]\<rparr>)"
  using assms by (simp add: resolver_unfold loop_first_match)

theorem first_match_with_empty_url_witness:
  "getLatestReleaseURL (demo_env release_empty_url (TarStream [] None))
       ''GloriousEggroll'' ''proton-ge-custom'' (demo_state []) =
     (Inl (Errorf ''no .tar.gz file found in the latest release''),
      (demo_state [])\<lparr>net_log := [apiURL ''GloriousEggroll'' ''proton-ge-custom'']\<rparr>)
   \<and> Assets release_empty_url ! 2 = \<lparr>Name = ''other.tar.gz'', DownloadURL = ''http://x/other.tar.gz''\<rparr>"
proof -
  let ?env = "demo_env release_empty_url (TarStream [] None)"
  let ?api = "apiURL ''GloriousEggroll'' ''proton-ge-custom''"
  have h1: "remote ?env ?api = Inr (?api, None)" by (simp add: demo_env_def)
  have h2: "json_Decode ?env (?api, None) = Inr release_empty_url" by (simp add: demo_env_def)
  have h3: "Assets release_empty_url =
      [\<lparr>Name = ''readme.txt'', DownloadURL = ''http://x/readme.txt''\<rparr>]
      @ \<lparr>Name = ''pkg-v1.2.3.tar.gz'', DownloadURL = []\<rparr>
      # [\<lparr>Name = ''other.tar.gz'', DownloadURL = ''http://x/other.tar.gz''\<rparr>]"
    by (simp add: release_empty_url_def)
  have h4: "\<forall>x\<in>set [\<lparr>Name = ''readme.txt'', DownloadURL = ''http://x/readme.txt''\<rparr>].
      \<not> suffix ''.gz'' (Name x)"
    by (simp add: suffix_to_prefix)
  have h5: "suffix ''.gz'' (Name \<lparr>Name = ''pkg-v1.2.3.tar.gz'', DownloadURL = []\<rparr>)"
    by (simp add: suffix_to_prefix)
  have h6: "DownloadURL \<lparr>Name = ''pkg-v1.2.3.tar.gz'', DownloadURL = []\<rparr> = []" by simp
  show ?thesis
    using first_match_with_empty_url [OF h1 h2 h3 h4 h5 h6, of "demo_state []"]
    by (simp add: demo_state_def release_empty_url_def)
qed

subsection \<open>Lemmas about the file system calls\<close>

lemma node_at_update:
  "node_at (AList.update c n f) q = (if q = [] then Some Dir else if q = c then Some n else node_at f q)"
  by (simp add: node_at_def update_conv')

lemma node_at_delete:
  "node_at (AList.delete c f) q = (if q = [] then Some Dir else if q = c then None else node_at f q)"
  by (simp add: node_at_def delete_conv')

lemma node_at_root [simp]: "node_at f [] = Some Dir"
  by (simp add: node_at_def)

lemma mkdirs_keeps: "node_at f q \<noteq> None \<Longrightarrow> node_at (mkdirs f qs) q = node_at f q"
proof (induction qs arbitrary: f)
  case Nil
  then show ?case by simp
next
  case (Cons a qs)
  show ?case
  proof (cases "node_at f a")
    case None
    with Cons.prems have "q \<noteq> a" by auto
    with Cons.prems have "node_at (AList.update a Dir f) q = node_at f q"
      by (simp add: node_at_update)
    with Cons.IH [of "AList.update a Dir f"] Cons.prems None show ?thesis by simp
  next
    case (Some nd)
    with Cons show ?thesis by (cases nd) simp_all
  qed
qed

lemma mkdirs_makes:
  "\<forall>q\<in>set qs. \<not> is_File (node_at f q) \<Longrightarrow> q \<in> set qs \<Longrightarrow> node_at (mkdirs f qs) q = Some Dir"
proof (induction qs arbitrary: f)
  case Nil
  then show ?case by simp
next
  case (Cons a qs)
  show ?case
  proof (cases "node_at f a")
    case None
    let ?g = "AList.update a Dir f"
    have nf: "\<forall>q\<in>set qs. \<not> is_File (node_at ?g q)"
      using Cons.prems(1) by (simp add: node_at_update)
    show ?thesis
    proof (cases "q = a")
      case True
      have "node_at ?g a = Some Dir" by (simp add: node_at_update)
      then have "node_at (mkdirs ?g qs) a = Some Dir" by (simp add: mkdirs_keeps)
      with None True show ?thesis by simp
    next
      case False
      with Cons.prems have "q \<in> set qs" by simp
      with Cons.IH [OF nf] None show ?thesis by simp
    qed
  next
    case (Some nd)
    with Cons.prems(1) have nd: "nd = Dir" by (cases nd) simp_all
    show ?thesis
    proof (cases "q = a")
      case True
      with Some nd show ?thesis by (simp add: mkdirs_keeps)
    next
      case False
      with Cons.prems have "q \<in> set qs" by simp
      moreover from Cons.prems(1) have "\<forall>q\<in>set qs. \<not> is_File (node_at f q)" by simp
      ultimately show ?thesis using Cons.IH [of f] Some nd by simp
    qed
  qed
qed

lemma mkdirs_changes:
  "node_at (mkdirs f qs) q \<noteq> node_at f q \<Longrightarrow> q \<in> set qs \<and> node_at f q = None \<and> node_at (mkdirs f qs) q = Some Dir"
proof (induction qs arbitrary: f)
  case Nil
  then show ?case by simp
next
  case (Cons a qs)
  show ?case
  proof (cases "node_at f a")
    case None
    let ?g = "AList.update a Dir f"
    from None have eq: "mkdirs f (a # qs) = mkdirs ?g qs" by simp
    show ?thesis
    proof (cases "node_at (mkdirs ?g qs) q = node_at ?g q")
      case True
      with Cons.prems eq have "node_at ?g q \<noteq> node_at f q" by simp
      then have "q = a" "q \<noteq> []" by (auto simp: node_at_update split: if_splits)
      with True None eq show ?thesis by (simp add: node_at_update)
    next
      case False
      from Cons.IH [OF False] have a: "q \<in> set qs" "node_at ?g q = None"
        "node_at (mkdirs ?g qs) q = Some Dir" by auto
      from a(2) have "node_at f q = None" by (auto simp: node_at_update split: if_splits)
      with a eq show ?thesis by simp
    qed
  next
    case (Some nd)
    show ?thesis
    proof (cases nd)
      case Dir
      with Some have eq: "mkdirs f (a # qs) = mkdirs f qs" by simp
      with Cons.prems have "node_at (mkdirs f qs) q \<noteq> node_at f q" by simp
      from Cons.IH [OF this] eq show ?thesis by simp
    next
      case (File b)
      with Some have "mkdirs f (a # qs) = f" by simp
      with Cons.prems show ?thesis by simp
    qed
  qed
qed

lemma os_Create_Inr:
  "os_Create env p s = (Inr c, s1) \<Longrightarrow>
     c = resolve env p \<and> c \<noteq> [] \<and> s1 = tick (s\<lparr>fs := AList.update c (File []) (fs s)\<rparr>)"
  by (auto simp: os_Create_def Let_def split: option.splits if_splits)

lemma os_Create_Inl:
  "os_Create env p s = (Inl err, s1) \<Longrightarrow> s1 = tick s \<and> (\<exists>e. err = CreateError e)"
  by (auto simp: os_Create_def Let_def split: option.splits if_splits)

lemma written_update [simp]: "written (AList.update c (File b) f) c = b"
  by (simp add: written_def update_conv')

lemma io_Copy_Inr:
  "io_Copy env out src s = (Inr n, s1) \<Longrightarrow>
     snd src = None \<and> n = length (fst src)
     \<and> s1 = tick (s\<lparr>fs := AList.update out (File (written (fs s) out @ fst src)) (fs s)\<rparr>)"
  by (auto simp: io_Copy_def split: option.splits if_splits)

lemma io_Copy_Inl:
  assumes "io_Copy env out src s = (Inl err, s1)"
  shows "\<exists>b. prefix b (fst src)
           \<and> s1 = tick (s\<lparr>fs := AList.update out (File (written (fs s) out @ b)) (fs s)\<rparr>)
           \<and> ((\<exists>m. err = CopyReadError m \<and> b = fst src)
              \<or> (\<exists>e. err = CopyWriteError e \<and> length b < length (fst src)))"
proof (cases "faults env (clock s)")
  case None
  with assms show ?thesis
    by (intro exI [of _ "fst src"]) (auto simp: io_Copy_def split: option.splits)
next
  case (Some ne)
  obtain n e where ne: "ne = (n, e)" by (cases ne)
  show ?thesis
  proof (cases "n < length (fst src)")
    case True
    with assms Some ne show ?thesis
      by (intro exI [of _ "take n (fst src)"]) (auto simp: io_Copy_def take_is_prefix)
  next
    case False
    with assms Some ne show ?thesis
      by (intro exI [of _ "fst src"]) (auto simp: io_Copy_def split: option.splits)
  qed
qed

lemma os_MkdirAll_Inr:
  "os_MkdirAll env p s = (Inr u, s1) \<Longrightarrow>
     p \<noteq> [] \<and> (\<forall>q. prefix q (resolve env p) \<longrightarrow> \<not> is_File (node_at (fs s) q))
     \<and> s1 = tick (s\<lparr>fs := mkdirs (fs s) (prefixes (resolve env p))\<rparr>)"
  by (auto simp: os_MkdirAll_def Let_def list_ex_iff split: option.splits if_splits)

lemma os_MkdirAll_Inl:
  "os_MkdirAll env p s = (Inl err, s1) \<Longrightarrow>
     (\<exists>e. err = MkdirAllError e) \<and> (\<exists>qs. s1 = tick s \<or> s1 = tick (s\<lparr>fs := mkdirs (fs s) qs\<rparr>))"
  by (auto simp: os_MkdirAll_def Let_def split: option.splits if_splits)

lemma fs_tick [simp]: "fs (tick s) = fs s" "net_log (tick s) = net_log s"
  "stdout (tick s) = stdout s" "stderr (tick s) = stderr s" "clock (tick s) = Suc (clock s)"
  by (simp_all add: tick_def)

subsection \<open>Selection of the asset\<close>

text \<open>
  C4 (as amended). When the request and the decoding succeed, the resolver returns
  the release's tag with the download URL of the first asset whose name ends in
  \<^verbatim>\<open>.gz\<close>, whatever assets precede or follow it, provided that URL is not empty.
\<close>

theorem first_match_selected:
  assumes "remote env (apiURL owner repo) = Inr body"
    and "json_Decode env body = Inr release"
    and "Assets release = pre @ a # post"
    and "\<forall>x\<in>set pre. \<not> suffix ''.gz'' (Name x)"
    and "suffix ''.gz'' (Name a)"
    and "DownloadURL a \<noteq> []"
  shows "getLatestReleaseURL env owner repo s =
           (Inr (TagName release, DownloadURL a),
            s\<lparr>net_log := net_log s @ [apiURL owner repo]\<rparr>)"
  using assms by (simp add: resolver_unfold loop_first_match)

theorem first_match_selected_witness:
  "getLatestReleaseURL (demo_env release_scenario (TarStream [] None))
       ''GloriousEggroll'' ''proton-ge-custom'' (demo_state []) =
     (Inr (''v1.2.3'', ''http://x/pkg.tar.gz''),
      (demo_state [])\<lparr>net_log := [apiURL ''GloriousEggroll'' ''proton-ge-custom'']\<rparr>)"
proof -
  let ?env = "demo_env release_scenario (TarStream [] None)"
  let ?api = "apiURL ''GloriousEggroll'' ''proton-ge-custom''"
  have h1: "remote ?env ?api = Inr (?api, None)" by (simp add: demo_env_def)
  have h2: "json_Decode ?env (?api, None) = Inr release_scenario" by (simp add: demo_env_def)
  have h3: "Assets release_scenario =
      [\<lparr>Name = ''readme.txt'', DownloadURL = ''http://x/readme.txt''\<rparr>]
      @ \<lparr>Name = ''pkg-v1.2.3.tar.gz'', DownloadURL = ''http://x/pkg.tar.gz''\<rparr>
      # [\<lparr>Name = ''other.tar.gz'', DownloadURL = ''http://x/other.tar.gz''\<rparr>]"
    by (simp add: release_scenario_def)
  have h4: "\<forall>x\<in>set [\<lparr>Name = ''readme.txt'', DownloadURL = ''http://x/readme.txt''\<rparr>].
      \<not> suffix ''.gz'' (Name x)"
    by (simp add: suffix_to_prefix)
  have h5: "suffix ''.gz'' (Name \<lparr>Name = ''pkg-v1.2.3.tar.gz'', DownloadURL = ''http://x/pkg.tar.gz''\<rparr>)"
    by (simp add: suffix_to_prefix)
  have h6: "DownloadURL \<lparr>Name = ''pkg-v1.2.3.tar.gz'', DownloadURL = ''http://x/pkg.tar.gz''\<rparr> \<noteq> []"
    by simp
  show ?thesis
    using first_match_selected [OF h1 h2 h3 h4 h5 h6, of "demo_state []"]
    by (simp add: demo_state_def release_scenario_def)
qed

text \<open>
  The claim as stated fails where the first \<^verbatim>\<open>.gz\<close> asset has an empty URL: the
  resolver does not return that asset's URL with the tag, it fails.
\<close>

theorem first_match_selected_counterexample:
  "suffix ''.gz'' (Name (Assets release_empty_url ! 1))
   \<and> \<not> suffix ''.gz'' (Name (Assets release_empty_url ! 0))
   \<and> fst (getLatestReleaseURL (demo_env release_empty_url (TarStream [] None))
             ''GloriousEggroll'' ''proton-ge-custom'' (demo_state []))
       \<noteq> Inr (TagName release_empty_url, DownloadURL (Assets release_empty_url ! 1))
   \<and> fst (getLatestReleaseURL (demo_env release_empty_url (TarStream [] None))
             ''GloriousEggroll'' ''proton-ge-custom'' (demo_state []))
       = Inl (Errorf ''no .tar.gz file found in the latest release'')"
proof -
  let ?env = "demo_env release_empty_url (TarStream [] None)"
  let ?api = "apiURL ''GloriousEggroll'' ''proton-ge-custom''"
  have h1: "remote ?env ?api = Inr (?api, None)" by (simp add: demo_env_def)
  have h2: "json_Decode ?env (?api, None) = Inr release_empty_url" by (simp add: demo_env_def)
  have "getLatestReleaseURL_loop [] (Assets release_empty_url) = []"
    by (simp add: release_empty_url_def Ext_gz_iff suffix_to_prefix)
  then have "fst (getLatestReleaseURL ?env ''GloriousEggroll'' ''proton-ge-custom'' (demo_state []))
      = Inl (Errorf ''no .tar.gz file found in the latest release'')"
    by (simp add: resolver_unfold [OF h1 h2])
  then show ?thesis
    by (simp add: release_empty_url_def suffix_to_prefix)
qed

text \<open>
  C5. When the request and the decoding succeed and no asset's name ends in
  \<^verbatim>\<open>.gz\<close>, the resolver fails with the error "no .tar.gz file found in the
  latest release", which is neither the error of the request nor that of the decoder;
  and \<^verbatim>\<open>main\<close>, from the folder on, exits with status 1 after this one request
  and the message: nothing is downloaded and the file system is unchanged.
\<close>

theorem no_matching_asset:
  assumes "remote env (apiURL owner repo) = Inr body"
    and "json_Decode env body = Inr release"
    and "\<forall>a\<in>set (Assets release). \<not> suffix ''.gz'' (Name a)"
  shows "getLatestReleaseURL env owner repo s =
           (Inl (Errorf ''no .tar.gz file found in the latest release''),
            s\<lparr>net_log := net_log s @ [apiURL owner repo]\<rparr>)
       \<and> (\<forall>m. fst (getLatestReleaseURL env owner repo s) \<noteq> Inl (GetError m))
       \<and> (\<forall>m. fst (getLatestReleaseURL env owner repo s) \<noteq> Inl (DecodeError m))
       \<and> (owner = ''GloriousEggroll'' \<and> repo = ''proton-ge-custom'' \<longrightarrow>
            main_sync env folder s =
              (1, Fprintf_Stderr
                    (''Error fetching latest release information: ''
                       @ ''no .tar.gz file found in the latest release'' @ nl)
                    (s\<lparr>net_log := net_log s @ [apiURL owner repo]\<rparr>)))"
proof -
  have r: "getLatestReleaseURL env owner repo s =
           (Inl (Errorf ''no .tar.gz file found in the latest release''),
            s\<lparr>net_log := net_log s @ [apiURL owner repo]\<rparr>)"
    using assms by (simp add: resolver_unfold loop_no_match)
  then show ?thesis by (auto simp: main_sync_def)
qed

theorem no_matching_asset_witness:
  "getLatestReleaseURL (demo_env release_no_match (TarStream [] None))
       ''GloriousEggroll'' ''proton-ge-custom'' (demo_state []) =
     (Inl (Errorf ''no .tar.gz file found in the latest release''),
      (demo_state [])\<lparr>net_log := [apiURL ''GloriousEggroll'' ''proton-ge-custom'']\<rparr>)
   \<and> fst (main_sync (demo_env release_no_match (TarStream [] None)) ''/h/c'' (demo_state [])) = 1
   \<and> fs (snd (main_sync (demo_env release_no_match (TarStream [] None)) ''/h/c'' (demo_state []))) = []
   \<and> net_log (snd (main_sync (demo_env release_no_match (TarStream [] None)) ''/h/c'' (demo_state [])))
       = [apiURL ''GloriousEggroll'' ''proton-ge-custom'']"
proof -
  let ?env = "demo_env release_no_match (TarStream [] None)"
  let ?api = "apiURL ''GloriousEggroll'' ''proton-ge-custom''"
  have h1: "remote ?env ?api = Inr (?api, None)" by (simp add: demo_env_def)
  have h2: "json_Decode ?env (?api, None) = Inr release_no_match" by (simp add: demo_env_def)
  have h3: "\<forall>a\<in>set (Assets release_no_match). \<not> suffix ''.gz'' (Name a)"
    by (simp add: release_no_match_def suffix_to_prefix)
  show ?thesis
    using no_matching_asset [OF h1 h2 h3, of "demo_state []" "''/h/c''"]
    by (simp add: demo_state_def Fprintf_Stderr_def)
qed

subsection \<open>Concrete evaluation\<close>

lemmas run_defs = extractTarGzFile_entry_def os_MkdirAll_def os_Create_def io_Copy_def
  resolve_def splitSlash_def Clean_def node_at_def blocked_def tick_def written_def
  TypeDir_def TypeReg_def demo_env_def demo_state_def Let_def

subsection \<open>The download transfer\<close>

text \<open>
  C9. When the GET of the transfer fails, \<^verbatim>\<open>downloadLatestRelease\<close> returns that
  error and the state is unchanged but for the logged request: the destination is
  neither created nor truncated. A failure of the request or of \<^verbatim>\<open>os.Create\<close>
  leaves the file system as it was; after a failure of \<^verbatim>\<open>io.Copy\<close> the
  destination holds an initial part of the response body, and after success all of it.
\<close>

theorem download_failure_effects:
  assumes "downloadLatestRelease env url outputPath s = (r, s')"
  shows "(\<forall>m. remote env url = Inl m \<longrightarrow>
            r = Inl (GetError m) \<and> s' = s\<lparr>net_log := net_log s @ [url]\<rparr>)
       \<and> ((\<exists>m. r = Inl (GetError m)) \<or> (\<exists>e. r = Inl (CreateError e)) \<longrightarrow> fs s' = fs s)
       \<and> (\<forall>err. r = Inl err \<and> fs s' \<noteq> fs s \<longrightarrow>
            ((\<exists>m. err = CopyReadError m) \<or> (\<exists>e. err = CopyWriteError e))
            \<and> (\<exists>body b. remote env url = Inr body \<and> prefix b (fst body)
                  \<and> node_at (fs s') (resolve env outputPath) = Some (File b)))
       \<and> (r = Inr () \<longrightarrow>
            (\<exists>body. remote env url = Inr body
               \<and> node_at (fs s') (resolve env outputPath) = Some (File (fst body))))"
proof (cases "remote env url")
  case (Inl m)
  with assms show ?thesis
    by (auto simp: downloadLatestRelease_def http_Get_def)
next
  case (Inr body)
  let ?s1 = "s\<lparr>net_log := net_log s @ [url]\<rparr>"
  obtain rc s2 where c: "os_Create env outputPath ?s1 = (rc, s2)" by force
  show ?thesis
  proof (cases rc)
    case (Inl err)
    with c have "s2 = tick ?s1" "\<exists>e. err = CreateError e"
      using os_Create_Inl [of env outputPath ?s1 err s2] by auto
    with assms Inr c Inl show ?thesis
      by (auto simp: downloadLatestRelease_def http_Get_def)
  next
    case out: (Inr out)
    with c have o: "out = resolve env outputPath" "out \<noteq> []"
      "s2 = tick (?s1\<lparr>fs := AList.update out (File []) (fs ?s1)\<rparr>)"
      using os_Create_Inr [of env outputPath ?s1 out s2] by auto
    then have w: "written (fs s2) out = []" by simp
    obtain rp s3 where p: "io_Copy env out body s2 = (rp, s3)" by force
    show ?thesis
    proof (cases rp)
      case (Inl err)
      from io_Copy_Inl [OF p [unfolded Inl]] w obtain b where b: "prefix b (fst body)"
        "s3 = tick (s2\<lparr>fs := AList.update out (File b) (fs s2)\<rparr>)"
        "(\<exists>m. err = CopyReadError m) \<or> (\<exists>e. err = CopyWriteError e)" by auto
      from b(2) o(2) have "node_at (fs s3) out = Some (File b)"
        by (simp add: node_at_update)
      with assms Inr c out p Inl b o(1) show ?thesis
        by (auto simp: downloadLatestRelease_def http_Get_def)
    next
      case n: (Inr n)
      from io_Copy_Inr [OF p [unfolded n]] w
      have "s3 = tick (s2\<lparr>fs := AList.update out (File (fst body)) (fs s2)\<rparr>)" by simp
      with o(2) have "node_at (fs s3) out = Some (File (fst body))"
        by (simp add: node_at_update)
      with assms Inr c out p n o(1) show ?thesis
        by (auto simp: downloadLatestRelease_def http_Get_def)
    qed
  qed
qed

theorem download_failure_effects_witness:
  "downloadLatestRelease
       ((demo_env release_scenario (TarStream [] None))\<lparr>remote := \<lambda>u. Inl ''connection refused''\<rparr>)
       ''http://x/pkg.tar.gz'' ''/h/d/pkg.tar.gz'' (demo_state fs_d)
     = (Inl (GetError ''connection refused''),
        (demo_state fs_d)\<lparr>net_log := [''http://x/pkg.tar.gz'']\<rparr>)
   \<and> downloadLatestRelease
       ((demo_env release_scenario (TarStream [] None))
          \<lparr>faults := \<lambda>k. if k = 1 then Some (2, ENOSPC) else None\<rparr>)
       ''http://x/pkg.tar.gz'' ''/h/d/pkg.tar.gz'' (demo_state fs_d)
     = (Inl (CopyWriteError ENOSPC),
        \<lparr>fs = fs_d @ [([''h'', ''d'', ''pkg.tar.gz''], File ''ht'')], clock = 2,
         net_log = [''http://x/pkg.tar.gz''], stdout = [], stderr = []\<rparr>)"
proof -
  let ?env = "(demo_env release_scenario (TarStream [] None))\<lparr>remote := \<lambda>u. Inl ''connection refused''\<rparr>"
  obtain res s' where d: "downloadLatestRelease ?env ''http://x/pkg.tar.gz'' ''/h/d/pkg.tar.gz''
      (demo_state fs_d) = (res, s')" by force
  have "remote ?env ''http://x/pkg.tar.gz'' = Inl ''connection refused''" by simp
  with download_failure_effects [OF d] d
  have a: "downloadLatestRelease ?env ''http://x/pkg.tar.gz'' ''/h/d/pkg.tar.gz'' (demo_state fs_d)
     = (Inl (GetError ''connection refused''),
        (demo_state fs_d)\<lparr>net_log := [''http://x/pkg.tar.gz'']\<rparr>)"
    by (simp add: demo_state_def)
  have b: "downloadLatestRelease
       ((demo_env release_scenario (TarStream [] None))
          \<lparr>faults := \<lambda>k. if k = 1 then Some (2, ENOSPC) else None\<rparr>)
       ''http://x/pkg.tar.gz'' ''/h/d/pkg.tar.gz'' (demo_state fs_d)
     = (Inl (CopyWriteError ENOSPC),
        \<lparr>fs = fs_d @ [([''h'', ''d'', ''pkg.tar.gz''], File ''ht'')], clock = 2,
         net_log = [''http://x/pkg.tar.gz''], stdout = [], stderr = []\<rparr>)"
    by (simp add: downloadLatestRelease_def http_Get_def run_defs fs_d_def)
  from a b show ?thesis by (rule conjI)
qed

text \<open>
  C6. An entry whose type flag is neither \<^verbatim>\<open>TypeDir\<close> nor \<^verbatim>\<open>TypeReg\<close> (a
  symbolic link, say) is skipped: its loop body returns no error and leaves the state
  as it is, and an archive with the entry extracts exactly as the archive without it.
\<close>

lemma resolve_targz_Decode [simp]: "resolve (env\<lparr>targz_Decode := x\<rparr>) p = resolve env p"
  by (simp add: resolve_def)

lemma os_MkdirAll_targz_Decode [simp]:
  "os_MkdirAll (env\<lparr>targz_Decode := x\<rparr>) p s = os_MkdirAll env p s"
  by (simp add: os_MkdirAll_def split: option.splits)

lemma os_Create_targz_Decode [simp]:
  "os_Create (env\<lparr>targz_Decode := x\<rparr>) p s = os_Create env p s"
  by (simp add: os_Create_def split: option.splits)

lemma io_Copy_targz_Decode [simp]:
  "io_Copy (env\<lparr>targz_Decode := x\<rparr>) out src s = io_Copy env out src s"
  by (simp add: io_Copy_def)

lemma entry_targz_Decode [simp]:
  "extractTarGzFile_entry (env\<lparr>targz_Decode := x\<rparr>) d e s = extractTarGzFile_entry env d e s"
  by (simp add: extractTarGzFile_entry_def Let_def del: Join.simps split: prod.splits sum.splits)

lemma loop_targz_Decode [simp]:
  "extractTarGzFile_loop (env\<lparr>targz_Decode := x\<rparr>) d es t s = extractTarGzFile_loop env d es t s"
  by (induction env d es t s rule: extractTarGzFile_loop.induct) (simp_all split: prod.splits sum.splits)

lemma os_Open_targz_Decode [simp]:
  "os_Open (env\<lparr>targz_Decode := x\<rparr>) p s = os_Open env p s"
  by (simp add: os_Open_def split: option.splits)

lemma loop_append:
  "extractTarGzFile_loop env d (es1 @ es2) t s =
     (case extractTarGzFile_loop env d es1 None s of
        (Inl err, s1) \<Rightarrow> (Inl err, s1)
      | (Inr u, s1) \<Rightarrow> extractTarGzFile_loop env d es2 t s1)"
  by (induction es1 arbitrary: s) (simp_all split: prod.splits sum.splits)

lemma entry_skipped:
  "hdr_Typeflag e \<noteq> TypeDir \<Longrightarrow> hdr_Typeflag e \<noteq> TypeReg \<Longrightarrow>
   extractTarGzFile_entry env d e s = (Inr (), s)"
  by (simp add: extractTarGzFile_entry_def)

theorem other_entry_types_skipped:
  assumes "hdr_Typeflag e \<noteq> TypeDir" and "hdr_Typeflag e \<noteq> TypeReg"
  shows "extractTarGzFile_entry env dest e s = (Inr (), s)
       \<and> extractTarGzFile_loop env dest (es1 @ e # es2) t s
           = extractTarGzFile_loop env dest (es1 @ es2) t s
       \<and> extractTarGzFile (env\<lparr>targz_Decode := \<lambda>b. TarStream (es1 @ e # es2) t\<rparr>) tarGzPath dest s
           = extractTarGzFile (env\<lparr>targz_Decode := \<lambda>b. TarStream (es1 @ es2) t\<rparr>) tarGzPath dest s"
proof -
  have a: "extractTarGzFile_entry env dest e s' = (Inr (), s')" for s'
    using assms by (rule entry_skipped)
  have b: "extractTarGzFile_loop env dest (es1 @ e # es2) t s'
           = extractTarGzFile_loop env dest (es1 @ es2) t s'" for s'
    by (simp add: loop_append [of env dest es1] a split: prod.splits sum.splits)
  have c: "extractTarGzFile (env\<lparr>targz_Decode := \<lambda>b. TarStream (es1 @ e # es2) t\<rparr>) tarGzPath dest s
           = extractTarGzFile (env\<lparr>targz_Decode := \<lambda>b. TarStream (es1 @ es2) t\<rparr>) tarGzPath dest s"
    by (simp add: extractTarGzFile_def gzip_NewReader_def b split: prod.splits sum.splits node.splits)
  from a b c show ?thesis by simp
qed

theorem other_entry_types_skipped_witness:
  "extractTarGzFile_loop (demo_env release_scenario (TarStream [] None)) ''/h/d''
       ([entry_dir] @ entry_link # [entry_run]) None (demo_state fs_d)
     = (Inr (),
        \<lparr>fs = fs_d @ [([''h'', ''d'', ''bin''], Dir), ([''h'', ''d'', ''bin'', ''run''], File ''ok'')],
         clock = 3, net_log = [], stdout = [], stderr = []\<rparr>)"
proof -
  have h1: "hdr_Typeflag entry_link \<noteq> TypeDir" by (simp add: entry_link_def TypeDir_def)
  have h2: "hdr_Typeflag entry_link \<noteq> TypeReg" by (simp add: entry_link_def TypeReg_def)
  have "extractTarGzFile_loop (demo_env release_scenario (TarStream [] None)) ''/h/d''
       ([entry_dir] @ [entry_run]) None (demo_state fs_d)
     = (Inr (),
        \<lparr>fs = fs_d @ [([''h'', ''d'', ''bin''], Dir), ([''h'', ''d'', ''bin'', ''run''], File ''ok'')],
         clock = 3, net_log = [], stdout = [], stderr = []\<rparr>)"
    by (simp add: run_defs entry_dir_def entry_run_def fs_d_def)
  with other_entry_types_skipped [OF h1 h2, of "demo_env release_scenario (TarStream [] None)"
      "''/h/d''" "demo_state fs_d" "[entry_dir]" "[entry_run]" None]
  show ?thesis by simp
qed

subsection \<open>The extractor: where an entry is written\<close>

declare Join.simps [simp del]

lemma TypeDir_neq_TypeReg [simp]: "TypeDir \<noteq> TypeReg" "TypeReg \<noteq> TypeDir"
  by (simp_all add: TypeDir_def TypeReg_def)

lemma entry_Dir:
  "hdr_Typeflag e = TypeDir \<Longrightarrow>
   extractTarGzFile_entry env d e s = os_MkdirAll env (Join [d, hdr_Name e]) s"
  by (simp add: extractTarGzFile_entry_def Let_def)

lemma entry_Reg:
  "hdr_Typeflag e = TypeReg \<Longrightarrow>
   extractTarGzFile_entry env d e s =
     (case os_Create env (Join [d, hdr_Name e]) s of
        (Inl err, s1) \<Rightarrow> (Inl err, s1)
      | (Inr outFile, s1) \<Rightarrow>
          (case io_Copy env outFile (payload e, payload_err e) s1 of
             (Inl err, s2) \<Rightarrow> (Inl err, s2)
           | (Inr n, s2) \<Rightarrow> (Inr (), s2)))"
  by (simp add: extractTarGzFile_entry_def Let_def)

lemma entry_Reg_Inr:
  assumes "hdr_Typeflag e = TypeReg"
    and "extractTarGzFile_entry env d e s = (Inr u, s')"
  shows "resolve env (Join [d, hdr_Name e]) \<noteq> []
       \<and> payload_err e = None
       \<and> os_Create env (Join [d, hdr_Name e]) s
            = (Inr (resolve env (Join [d, hdr_Name e])),
               tick (s\<lparr>fs := AList.update (resolve env (Join [d, hdr_Name e])) (File []) (fs s)\<rparr>))
       \<and> fs s' = AList.update (resolve env (Join [d, hdr_Name e])) (File (payload e)) (fs s)"
proof -
  let ?p = "Join [d, hdr_Name e]"
  obtain rc s1 where c: "os_Create env ?p s = (rc, s1)" by force
  with assms obtain out where out: "rc = Inr out"
    by (cases rc) (auto simp: entry_Reg)
  from os_Create_Inr [OF c [unfolded out]]
  have o: "out = resolve env ?p" "out \<noteq> []"
    "s1 = tick (s\<lparr>fs := AList.update out (File []) (fs s)\<rparr>)" by auto
  obtain rp s2 where p: "io_Copy env out (payload e, payload_err e) s1 = (rp, s2)" by force
  with assms c out obtain n where n: "rp = Inr n" and s2: "s2 = s'"
    by (cases rp) (auto simp: entry_Reg)
  from io_Copy_Inr [OF p [unfolded n]] o(3)
  have "payload_err e = None"
    "s2 = tick (s1\<lparr>fs := AList.update out (File (payload e)) (fs s1)\<rparr>)" by simp_all
  with o c out s2 show ?thesis by auto
qed

text \<open>
  The loop body writes at \<^verbatim>\<open>filepath.Join(outputFolderPath, header.Name)\<close> and
  nowhere else: after a directory entry that path is a directory, after a regular
  file entry it is a file with the entry's payload, and every path whose node the
  entry changed is that path or (for a directory entry) one of its ancestors. The
  name is not checked.
\<close>

lemma entry_at_joined_path:
  "(\<forall>s'. extractTarGzFile_entry env dest e s = (Inr (), s') \<longrightarrow>
      (hdr_Typeflag e = TypeDir \<longrightarrow>
         node_at (fs s') (resolve env (Join [dest, hdr_Name e])) = Some Dir)
    \<and> (hdr_Typeflag e = TypeReg \<longrightarrow>
         node_at (fs s') (resolve env (Join [dest, hdr_Name e])) = Some (File (payload e)))
    \<and> (\<forall>q. node_at (fs s') q \<noteq> node_at (fs s) q \<longrightarrow>
           prefix q (resolve env (Join [dest, hdr_Name e]))))
   \<and> (\<exists>env' d x t' t''. extractTarGzFile_entry env' d x t' = (Inr (), t'')
         \<and> hdr_Typeflag x = TypeReg
         \<and> hdr_Name x = ''../../etc/passwd''
         \<and> \<not> prefix (resolve env' d) (resolve env' (Join [d, hdr_Name x]))
         \<and> node_at (fs t') (resolve env' (Join [d, hdr_Name x])) = None
         \<and> node_at (fs t'') (resolve env' (Join [d, hdr_Name x])) = Some (File (payload x)))"
proof (intro conjI allI impI)
  fix s'
  assume ok: "extractTarGzFile_entry env dest e s = (Inr (), s')"
  let ?c = "resolve env (Join [dest, hdr_Name e])"
  {
    assume d: "hdr_Typeflag e = TypeDir"
    with ok have m: "os_MkdirAll env (Join [dest, hdr_Name e]) s = (Inr (), s')"
      by (simp add: entry_Dir)
    from os_MkdirAll_Inr [OF m]
    have nf: "\<forall>q\<in>set (prefixes ?c). \<not> is_File (node_at (fs s) q)"
      and s': "fs s' = mkdirs (fs s) (prefixes ?c)" by simp_all
    from mkdirs_makes [OF nf, of ?c] s'
    show "node_at (fs s') ?c = Some Dir" by simp
  }
  {
    assume r: "hdr_Typeflag e = TypeReg"
    from entry_Reg_Inr [OF r ok]
    show "node_at (fs s') ?c = Some (File (payload e))"
      by (simp add: node_at_update)
  }
  {
    fix q
    assume ch: "node_at (fs s') q \<noteq> node_at (fs s) q"
    show "prefix q ?c"
    proof (cases "hdr_Typeflag e = TypeDir")
      case True
      with ok have m: "os_MkdirAll env (Join [dest, hdr_Name e]) s = (Inr (), s')"
        by (simp add: entry_Dir)
      from os_MkdirAll_Inr [OF m] have "fs s' = mkdirs (fs s) (prefixes ?c)" by simp
      with ch mkdirs_changes [of "fs s" "prefixes ?c" q] show ?thesis by simp
    next
      case nd: False
      show ?thesis
      proof (cases "hdr_Typeflag e = TypeReg")
        case True
        from entry_Reg_Inr [OF True ok] ch have "q = ?c"
          by (auto simp: node_at_update split: if_splits)
        then show ?thesis by simp
      next
        case False
        with nd ok have "s' = s" by (simp add: entry_skipped)
        with ch show ?thesis by simp
      qed
    qed
  }
next
  let ?env = "demo_env release_scenario (TarStream [] None)"
  have j: "Join [''/h/d'', hdr_Name entry_escape] = ''/etc/passwd''"
    by (simp add: entry_escape_def Join.simps Clean_def splitSlash_def)
  have r1: "resolve ?env ''/etc/passwd'' = [''etc'', ''passwd'']"
    by (simp add: resolve_def splitSlash_def)
  have r2: "resolve ?env ''/h/d'' = [''h'', ''d'']"
    by (simp add: resolve_def splitSlash_def)
  have x: "extractTarGzFile_entry ?env ''/h/d'' entry_escape (demo_state fs_d)
      = (Inr (), \<lparr>fs = fs_d @ [([''etc'', ''passwd''], File ''root'')], clock = 2,
                   net_log = [], stdout = [], stderr = []\<rparr>)"
    by (simp add: run_defs Join.simps entry_escape_def fs_d_def)
  have "extractTarGzFile_entry ?env ''/h/d'' entry_escape (demo_state fs_d)
          = (Inr (), \<lparr>fs = fs_d @ [([''etc'', ''passwd''], File ''root'')], clock = 2,
                       net_log = [], stdout = [], stderr = []\<rparr>)
         \<and> hdr_Typeflag entry_escape = TypeReg
         \<and> hdr_Name entry_escape = ''../../etc/passwd''
         \<and> \<not> prefix (resolve ?env ''/h/d'') (resolve ?env (Join [''/h/d'', hdr_Name entry_escape]))
         \<and> node_at (fs (demo_state fs_d)) (resolve ?env (Join [''/h/d'', hdr_Name entry_escape])) = None
         \<and> node_at (fs \<lparr>fs = fs_d @ [([''etc'', ''passwd''], File ''root'')], clock = 2,
                       net_log = [], stdout = [], stderr = []\<rparr>)
              (resolve ?env (Join [''/h/d'', hdr_Name entry_escape])) = Some (File (payload entry_escape))"
    unfolding j r1 r2 using x
    by (simp add: entry_escape_def demo_state_def fs_d_def node_at_def)
  then show "\<exists>env' d x t' t''. extractTarGzFile_entry env' d x t' = (Inr (), t'')
         \<and> hdr_Typeflag x = TypeReg
         \<and> hdr_Name x = ''../../etc/passwd''
         \<and> \<not> prefix (resolve env' d) (resolve env' (Join [d, hdr_Name x]))
         \<and> node_at (fs t') (resolve env' (Join [d, hdr_Name x])) = None
         \<and> node_at (fs t'') (resolve env' (Join [d, hdr_Name x])) = Some (File (payload x))"
    by blast
qed

subsection \<open>The extractor: failures\<close>

lemma os_MkdirAll_fs: "os_MkdirAll env p s = (r, s1) \<Longrightarrow> \<exists>qs. fs s1 = mkdirs (fs s) qs"
proof (cases "faults env (clock s)")
  case None
  assume a: "os_MkdirAll env p s = (r, s1)"
  show ?thesis
  proof (cases r)
    case (Inl err)
    with a None have "fs s1 = mkdirs (fs s) []"
      by (auto simp: os_MkdirAll_def Let_def split: if_splits)
    then show ?thesis ..
  next
    case (Inr u)
    with a os_MkdirAll_Inr [of env p s u s1] show ?thesis by auto
  qed
next
  case (Some ne)
  assume a: "os_MkdirAll env p s = (r, s1)"
  obtain n e where "ne = (n, e)" by (cases ne)
  with a Some have "fs s1 = mkdirs (fs s) (if p = [] then [] else take n (prefixes (resolve env p)))"
    by (auto simp: os_MkdirAll_def)
  then show ?thesis ..
qed

lemma io_Copy_fs: "io_Copy env out src s = (r, s1) \<Longrightarrow> \<exists>b. fs s1 = AList.update out (File b) (fs s)"
  by (cases r) (use io_Copy_Inl [of env out src s _ s1] io_Copy_Inr [of env out src s _ s1] in auto)

lemma entry_frame:
  assumes "extractTarGzFile_entry env d e s = (r, s')"
    and "node_at (fs s) q \<noteq> None"
    and "q \<noteq> resolve env (Join [d, hdr_Name e])"
  shows "node_at (fs s') q = node_at (fs s) q"
proof (cases "hdr_Typeflag e = TypeDir")
  case True
  with assms(1) have "os_MkdirAll env (Join [d, hdr_Name e]) s = (r, s')"
    by (simp add: entry_Dir)
  from os_MkdirAll_fs [OF this] assms(2) show ?thesis by (auto simp: mkdirs_keeps)
next
  case nd: False
  show ?thesis
  proof (cases "hdr_Typeflag e = TypeReg")
    case True
    let ?p = "Join [d, hdr_Name e]"
    obtain rc s1 where c: "os_Create env ?p s = (rc, s1)" by force
    show ?thesis
    proof (cases rc)
      case (Inl err)
      with c assms(1) True os_Create_Inl [of env ?p s err s1] show ?thesis
        by (auto simp: entry_Reg)
    next
      case (Inr out)
      from os_Create_Inr [OF c [unfolded Inr]]
      have o: "out = resolve env ?p" "fs s1 = AList.update out (File []) (fs s)" by simp_all
      obtain rp s2 where p: "io_Copy env out (payload e, payload_err e) s1 = (rp, s2)" by force
      from io_Copy_fs [OF p] obtain b where b: "fs s2 = AList.update out (File b) (fs s1)" ..
      from assms(1) True c Inr p have "s' = s2" by (cases rp) (auto simp: entry_Reg)
      with b o assms(3) show ?thesis by (simp add: node_at_update)
    qed
  next
    case False
    with nd assms(1) show ?thesis by (simp add: entry_skipped)
  qed
qed

lemma entry_Inl_iff:
  "extractTarGzFile_entry env d e s = (Inl err, s') \<longleftrightarrow>
     (hdr_Typeflag e = TypeDir \<and> os_MkdirAll env (Join [d, hdr_Name e]) s = (Inl err, s'))
   \<or> (hdr_Typeflag e = TypeReg
        \<and> (os_Create env (Join [d, hdr_Name e]) s = (Inl err, s')
           \<or> (\<exists>out s1. os_Create env (Join [d, hdr_Name e]) s = (Inr out, s1)
                 \<and> io_Copy env out (payload e, payload_err e) s1 = (Inl err, s'))))"
proof (cases "hdr_Typeflag e = TypeDir")
  case True
  then show ?thesis by (simp add: entry_Dir)
next
  case nd: False
  show ?thesis
  proof (cases "hdr_Typeflag e = TypeReg")
    case True
    then show ?thesis
      by (auto simp: entry_Reg split: prod.splits sum.splits)
  next
    case False
    with nd show ?thesis by (simp add: entry_skipped)
  qed
qed

lemma entry_Inl_kind:
  assumes "extractTarGzFile_entry env d e s = (Inl err, s')"
  shows "(\<exists>x. err = MkdirAllError x) \<or> (\<exists>x. err = CreateError x)
       \<or> (\<exists>m. err = CopyReadError m) \<or> (\<exists>x. err = CopyWriteError x)"
  using assms [unfolded entry_Inl_iff]
  by (auto dest: os_MkdirAll_Inl os_Create_Inl io_Copy_Inl)

lemma loop_Inl_decomp:
  "extractTarGzFile_loop env d es t s = (Inl err, s') \<Longrightarrow>
     \<exists>done rest s2. es = done @ rest \<and> extractTarGzFile_loop env d done None s = (Inr (), s2)
       \<and> ((\<exists>m. rest = [] \<and> t = Some m \<and> err = TarError m \<and> s' = s2)
          \<or> (\<exists>e rest'. rest = e # rest' \<and> extractTarGzFile_entry env d e s2 = (Inl err, s')))"
proof (induction es arbitrary: s)
  case Nil
  then show ?case by (cases t) auto
next
  case (Cons a es)
  obtain r s1 where a: "extractTarGzFile_entry env d a s = (r, s1)" by force
  show ?case
  proof (cases r)
    case (Inl x)
    with a Cons.prems have "extractTarGzFile_entry env d a s = (Inl err, s')" by simp
    then have "a # es = [] @ a # es \<and> extractTarGzFile_loop env d [] None s = (Inr (), s)
       \<and> extractTarGzFile_entry env d a s = (Inl err, s')" by simp
    then show ?thesis by blast
  next
    case (Inr u)
    with a Cons.prems have "extractTarGzFile_loop env d es t s1 = (Inl err, s')" by simp
    from Cons.IH [OF this] obtain dn rest s2 where
      d: "es = dn @ rest" "extractTarGzFile_loop env d dn None s1 = (Inr (), s2)"
       "(\<exists>m. rest = [] \<and> t = Some m \<and> err = TarError m \<and> s' = s2)
          \<or> (\<exists>e rest'. rest = e # rest' \<and> extractTarGzFile_entry env d e s2 = (Inl err, s'))"
      by blast
    from d(1,2) a Inr have "a # es = (a # dn) @ rest"
      "extractTarGzFile_loop env d (a # dn) None s = (Inr (), s2)" by simp_all
    with d(3) show ?thesis by blast
  qed
qed


lemma os_Open_Inl: "os_Open env p s = (Inl err, s1) \<Longrightarrow> \<exists>x. err = OpenError x"
  by (auto simp: os_Open_def split: option.splits if_splits)

lemma gzip_NewReader_Inl: "gzip_NewReader env file = Inl err \<Longrightarrow> \<exists>m. err = GzipError m"
  by (auto simp: gzip_NewReader_def split: node.splits archive.splits)

lemma extract_Inl_decomp:
  assumes "extractTarGzFile env p d s = (Inl err, s')"
  shows "os_Open env p s = (Inl err, s')
       \<or> (\<exists>file. os_Open env p s = (Inr file, s') \<and> gzip_NewReader env file = Inl err)
       \<or> (\<exists>file s1 dn rest t s2.
             os_Open env p s = (Inr file, s1) \<and> gzip_NewReader env file = Inr (dn @ rest, t)
           \<and> extractTarGzFile_loop env d dn None s1 = (Inr (), s2)
           \<and> ((\<exists>m. rest = [] \<and> t = Some m \<and> err = TarError m \<and> s' = s2)
              \<or> (\<exists>e rest'. rest = e # rest'
                    \<and> extractTarGzFile_entry env d e s2 = (Inl err, s'))))"
proof -
  obtain ro s1 where o: "os_Open env p s = (ro, s1)" by force
  show ?thesis
  proof (cases ro)
    case (Inl x)
    with o assms show ?thesis by (simp add: extractTarGzFile_def)
  next
    case (Inr fl)
    show ?thesis
    proof (cases "gzip_NewReader env fl")
      case (Inl x)
      with o Inr assms have "os_Open env p s = (Inr fl, s') \<and> gzip_NewReader env fl = Inl err"
        by (simp add: extractTarGzFile_def)
      then show ?thesis by blast
    next
      case g: (Inr est)
      obtain es t where est: "est = (es, t)" by (cases est)
      with o Inr g assms have "extractTarGzFile_loop env d es t s1 = (Inl err, s')"
        by (simp add: extractTarGzFile_def)
      from loop_Inl_decomp [OF this] obtain dn rest s2 where
        "es = dn @ rest" "extractTarGzFile_loop env d dn None s1 = (Inr (), s2)"
        "(\<exists>m. rest = [] \<and> t = Some m \<and> err = TarError m \<and> s' = s2)
          \<or> (\<exists>e rest'. rest = e # rest' \<and> extractTarGzFile_entry env d e s2 = (Inl err, s'))"
        by blast
      with o Inr g est have "os_Open env p s = (Inr fl, s1)
           \<and> gzip_NewReader env fl = Inr (dn @ rest, t)
           \<and> extractTarGzFile_loop env d dn None s1 = (Inr (), s2)
           \<and> ((\<exists>m. rest = [] \<and> t = Some m \<and> err = TarError m \<and> s' = s2)
              \<or> (\<exists>e rest'. rest = e # rest'
                    \<and> extractTarGzFile_entry env d e s2 = (Inl err, s')))"
        by simp
      then show ?thesis by blast
    qed
  qed
qed

lemma extract_Inl_kind:
  assumes "extractTarGzFile env p d s = (Inl err, s')"
  shows "(\<exists>x. err = OpenError x) \<or> (\<exists>m. err = GzipError m) \<or> (\<exists>m. err = TarError m)
       \<or> (\<exists>x. err = MkdirAllError x) \<or> (\<exists>x. err = CreateError x)
       \<or> (\<exists>m. err = CopyReadError m) \<or> (\<exists>x. err = CopyWriteError x)"
proof -
  from extract_Inl_decomp [OF assms]
  consider (op) "os_Open env p s = (Inl err, s')"
    | (gz) fl where "gzip_NewReader env fl = Inl err"
    | (tar) m where "err = TarError m"
    | (ent) e s2 where "extractTarGzFile_entry env d e s2 = (Inl err, s')"
    by blast
  then show ?thesis
  proof cases
    case op
    from os_Open_Inl [OF op] show ?thesis by blast
  next
    case gz
    from gzip_NewReader_Inl [OF gz] show ?thesis by blast
  next
    case tar
    then show ?thesis by blast
  next
    case ent
    from entry_Inl_kind [OF ent] show ?thesis by blast
  qed
qed

lemma extract_after_prefix:
  assumes "os_Open env p s = (Inr file, s1)"
    and "gzip_NewReader env file = Inr (dn @ rest, t)"
    and "extractTarGzFile_loop env d dn None s1 = (Inr (), s2)"
  shows "extractTarGzFile env p d s = extractTarGzFile_loop env d rest t s2"
  using assms by (simp add: extractTarGzFile_def loop_append)

text \<open>
  C7. Extraction fails exactly on a failure of \<^verbatim>\<open>os.Open\<close>, of the gzip header,
  of \<^verbatim>\<open>tarReader.Next\<close>, of \<^verbatim>\<open>os.MkdirAll\<close>, of \<^verbatim>\<open>os.Create\<close> or of
  \<^verbatim>\<open>io.Copy\<close>: a failing run is one of these cases and its error is the error of
  that call; conversely each of these failures, as the first one, makes the run
  return that error at once, in the state the failing call left. Nothing is rolled
  back: that state is the state after the entries before the failing one, in which
  the failing entry has changed no existing node but the one at its own output path.
\<close>

theorem extraction_fails_exactly:
  "(\<forall>err s'. extractTarGzFile env p d s = (Inl err, s') \<longrightarrow>
      (os_Open env p s = (Inl err, s')
       \<or> (\<exists>file. os_Open env p s = (Inr file, s') \<and> gzip_NewReader env file = Inl err)
       \<or> (\<exists>file s1 dn rest t s2.
             os_Open env p s = (Inr file, s1) \<and> gzip_NewReader env file = Inr (dn @ rest, t)
           \<and> extractTarGzFile_loop env d dn None s1 = (Inr (), s2)
           \<and> ((\<exists>m. rest = [] \<and> t = Some m \<and> err = TarError m \<and> s' = s2)
              \<or> (\<exists>e rest'. rest = e # rest'
                    \<and> extractTarGzFile_entry env d e s2 = (Inl err, s')))))
    \<and> ((\<exists>x. err = OpenError x) \<or> (\<exists>m. err = GzipError m) \<or> (\<exists>m. err = TarError m)
       \<or> (\<exists>x. err = MkdirAllError x) \<or> (\<exists>x. err = CreateError x)
       \<or> (\<exists>m. err = CopyReadError m) \<or> (\<exists>x. err = CopyWriteError x)))
   \<and> (\<forall>err s1. os_Open env p s = (Inl err, s1) \<longrightarrow> extractTarGzFile env p d s = (Inl err, s1))
   \<and> (\<forall>file s1 err. os_Open env p s = (Inr file, s1) \<and> gzip_NewReader env file = Inl err \<longrightarrow>
         extractTarGzFile env p d s = (Inl err, s1))
   \<and> (\<forall>file s1 dn rest t s2.
         os_Open env p s = (Inr file, s1) \<and> gzip_NewReader env file = Inr (dn @ rest, t)
         \<and> extractTarGzFile_loop env d dn None s1 = (Inr (), s2) \<longrightarrow>
           (\<forall>m. rest = [] \<and> t = Some m \<longrightarrow> extractTarGzFile env p d s = (Inl (TarError m), s2))
         \<and> (\<forall>e rest' err s3.
               rest = e # rest' \<and> extractTarGzFile_entry env d e s2 = (Inl err, s3) \<longrightarrow>
                 extractTarGzFile env p d s = (Inl err, s3)
               \<and> (\<forall>q. node_at (fs s2) q \<noteq> None \<and> q \<noteq> resolve env (Join [d, hdr_Name e]) \<longrightarrow>
                      node_at (fs s3) q = node_at (fs s2) q)))
   \<and> (\<forall>e s2 err s3. extractTarGzFile_entry env d e s2 = (Inl err, s3) \<longleftrightarrow>
         (hdr_Typeflag e = TypeDir \<and> os_MkdirAll env (Join [d, hdr_Name e]) s2 = (Inl err, s3))
       \<or> (hdr_Typeflag e = TypeReg
            \<and> (os_Create env (Join [d, hdr_Name e]) s2 = (Inl err, s3)
               \<or> (\<exists>out s1. os_Create env (Join [d, hdr_Name e]) s2 = (Inr out, s1)
                     \<and> io_Copy env out (payload e, payload_err e) s1 = (Inl err, s3)))))"
proof (intro conjI allI impI)
  fix err s'
  assume "extractTarGzFile env p d s = (Inl err, s')"
  then show "os_Open env p s = (Inl err, s')
       \<or> (\<exists>file. os_Open env p s = (Inr file, s') \<and> gzip_NewReader env file = Inl err)
       \<or> (\<exists>file s1 dn rest t s2.
             os_Open env p s = (Inr file, s1) \<and> gzip_NewReader env file = Inr (dn @ rest, t)
           \<and> extractTarGzFile_loop env d dn None s1 = (Inr (), s2)
           \<and> ((\<exists>m. rest = [] \<and> t = Some m \<and> err = TarError m \<and> s' = s2)
              \<or> (\<exists>e rest'. rest = e # rest'
                    \<and> extractTarGzFile_entry env d e s2 = (Inl err, s'))))"
    by (rule extract_Inl_decomp)
next
  fix err s'
  assume "extractTarGzFile env p d s = (Inl err, s')"
  then show "(\<exists>x. err = OpenError x) \<or> (\<exists>m. err = GzipError m) \<or> (\<exists>m. err = TarError m)
       \<or> (\<exists>x. err = MkdirAllError x) \<or> (\<exists>x. err = CreateError x)
       \<or> (\<exists>m. err = CopyReadError m) \<or> (\<exists>x. err = CopyWriteError x)"
    by (rule extract_Inl_kind)
next
  fix err s1
  assume "os_Open env p s = (Inl err, s1)"
  then show "extractTarGzFile env p d s = (Inl err, s1)" by (simp add: extractTarGzFile_def)
next
  fix fl s1 err
  assume "os_Open env p s = (Inr fl, s1) \<and> gzip_NewReader env fl = Inl err"
  then show "extractTarGzFile env p d s = (Inl err, s1)" by (simp add: extractTarGzFile_def)
next
  fix fl s1 dn rest t s2 m
  assume a: "os_Open env p s = (Inr fl, s1) \<and> gzip_NewReader env fl = Inr (dn @ rest, t)
         \<and> extractTarGzFile_loop env d dn None s1 = (Inr (), s2)"
    and b: "rest = [] \<and> t = Some m"
  from a have "extractTarGzFile env p d s = extractTarGzFile_loop env d rest t s2"
    by (intro extract_after_prefix) auto
  with b show "extractTarGzFile env p d s = (Inl (TarError m), s2)" by simp
next
  fix fl s1 dn rest t s2 e rest' err s3
  assume a: "os_Open env p s = (Inr fl, s1) \<and> gzip_NewReader env fl = Inr (dn @ rest, t)
         \<and> extractTarGzFile_loop env d dn None s1 = (Inr (), s2)"
    and b: "rest = e # rest' \<and> extractTarGzFile_entry env d e s2 = (Inl err, s3)"
  from a have "extractTarGzFile env p d s = extractTarGzFile_loop env d rest t s2"
    by (intro extract_after_prefix) auto
  with b show "extractTarGzFile env p d s = (Inl err, s3)" by simp
next
  fix fl s1 dn rest t s2 e rest' err s3 q
  assume b: "rest = e # rest' \<and> extractTarGzFile_entry env d e s2 = (Inl err, s3)"
    and q: "node_at (fs s2) q \<noteq> None \<and> q \<noteq> resolve env (Join [d, hdr_Name e])"
  then show "node_at (fs s3) q = node_at (fs s2) q"
    using entry_frame [of env d e s2 "Inl err" s3 q] by simp
next
  fix e s2 err s3
  show "extractTarGzFile_entry env d e s2 = (Inl err, s3) \<longleftrightarrow>
         (hdr_Typeflag e = TypeDir \<and> os_MkdirAll env (Join [d, hdr_Name e]) s2 = (Inl err, s3))
       \<or> (hdr_Typeflag e = TypeReg
            \<and> (os_Create env (Join [d, hdr_Name e]) s2 = (Inl err, s3)
               \<or> (\<exists>out s1. os_Create env (Join [d, hdr_Name e]) s2 = (Inr out, s1)
                     \<and> io_Copy env out (payload e, payload_err e) s1 = (Inl err, s3))))"
    by (rule entry_Inl_iff)
qed


theorem extraction_fails_exactly_witness:
  "extractTarGzFile (demo_env release_scenario (TarStream ([entry_dir] @ entry_orphan # [entry_run]) None))
       ''/h/d/a.tar.gz'' ''/h/d'' (demo_state fs_a)
     = (Inl (CreateError ENOENT),
        \<lparr>fs = fs_a @ [([''h'', ''d'', ''bin''], Dir)], clock = 3,
         net_log = [], stdout = [], stderr = []\<rparr>)"
proof -
  let ?env = "demo_env release_scenario (TarStream ([entry_dir] @ entry_orphan # [entry_run]) None)"
  let ?s1 = "\<lparr>fs = fs_a, clock = 1, net_log = [], stdout = [], stderr = []\<rparr>"
  let ?s2 = "\<lparr>fs = fs_a @ [([''h'', ''d'', ''bin''], Dir)], clock = 2,
              net_log = [], stdout = [], stderr = []\<rparr>"
  let ?s3 = "\<lparr>fs = fs_a @ [([''h'', ''d'', ''bin''], Dir)], clock = 3,
              net_log = [], stdout = [], stderr = []\<rparr>"
  have o: "os_Open ?env ''/h/d/a.tar.gz'' (demo_state fs_a) = (Inr (File ''gz''), ?s1)"
    by (simp add: os_Open_def run_defs fs_a_def)
  have g: "gzip_NewReader ?env (File ''gz'') = Inr ([entry_dir] @ entry_orphan # [entry_run], None)"
    by (simp add: gzip_NewReader_def demo_env_def)
  have l: "extractTarGzFile_loop ?env ''/h/d'' [entry_dir] None ?s1 = (Inr (), ?s2)"
    by (simp add: run_defs Join.simps entry_dir_def fs_a_def)
  have e: "extractTarGzFile_entry ?env ''/h/d'' entry_orphan ?s2 = (Inl (CreateError ENOENT), ?s3)"
    by (simp add: run_defs Join.simps entry_orphan_def fs_a_def)
  from extraction_fails_exactly [of ?env "''/h/d/a.tar.gz''" "''/h/d''" "demo_state fs_a"]
  have "\<forall>file s1 dn rest t s2.
         os_Open ?env ''/h/d/a.tar.gz'' (demo_state fs_a) = (Inr file, s1)
         \<and> gzip_NewReader ?env file = Inr (dn @ rest, t)
         \<and> extractTarGzFile_loop ?env ''/h/d'' dn None s1 = (Inr (), s2) \<longrightarrow>
           (\<forall>e rest' err s3.
               rest = e # rest' \<and> extractTarGzFile_entry ?env ''/h/d'' e s2 = (Inl err, s3) \<longrightarrow>
                 extractTarGzFile ?env ''/h/d/a.tar.gz'' ''/h/d'' (demo_state fs_a) = (Inl err, s3))"
    by (elim conjE) (intro allI impI, blast)
  with o g l e show ?thesis by blast
qed

subsection \<open>The stages of main\<close>

lemma main_sync_resolve_failed:
  "getLatestReleaseURL env ''GloriousEggroll'' ''proton-ge-custom'' s = (Inl err, s2) \<Longrightarrow>
   main_sync env folder s =
     (1, Fprintf_Stderr (''Error fetching latest release information: '' @ Error err @ nl) s2)"
  by (simp add: main_sync_def)

lemma main_sync_installed:
  "getLatestReleaseURL env ''GloriousEggroll'' ''proton-ge-custom'' s = (Inr (tag, url), s2) \<Longrightarrow>
   os_Stat env (Join [folder, tag]) s2 = (Inr info, s3) \<Longrightarrow>
   main_sync env folder s =
     (0, Printf (''The latest version of GE-Proton, '' @ tag
                   @ '', is already installed. Exiting...'' @ nl) s3)"
  by (simp add: main_sync_def)

lemma main_sync_download_failed:
  "getLatestReleaseURL env ''GloriousEggroll'' ''proton-ge-custom'' s = (Inr (tag, url), s2) \<Longrightarrow>
   os_Stat env (Join [folder, tag]) s2 = (Inl e0, s3) \<Longrightarrow>
   downloadLatestRelease env url (main_tarGzPath folder tag)
       (main_downloading url (main_tarGzPath folder tag) s3) = (Inl err, s4) \<Longrightarrow>
   main_sync env folder s =
     (1, Fprintf_Stderr (''Error downloading .tar.gz file: '' @ Error err @ nl) s4)"
  by (simp add: main_sync_def main_tarGzPath_def main_downloading_def Let_def)

lemma main_sync_extract_failed:
  "getLatestReleaseURL env ''GloriousEggroll'' ''proton-ge-custom'' s = (Inr (tag, url), s2) \<Longrightarrow>
   os_Stat env (Join [folder, tag]) s2 = (Inl e0, s3) \<Longrightarrow>
   downloadLatestRelease env url (main_tarGzPath folder tag)
       (main_downloading url (main_tarGzPath folder tag) s3) = (Inr u, s4) \<Longrightarrow>
   extractTarGzFile env (main_tarGzPath folder tag) folder
       (main_extracting (main_tarGzPath folder tag) folder s4) = (Inl err, s6) \<Longrightarrow>
   main_sync env folder s =
     (1, Fprintf_Stderr (''Error extracting .tar.gz file: '' @ Error err @ nl) s6)"
  by (simp add: main_sync_def main_tarGzPath_def main_downloading_def main_extracting_def Let_def)

lemma main_sync_remove_failed:
  "getLatestReleaseURL env ''GloriousEggroll'' ''proton-ge-custom'' s = (Inr (tag, url), s2) \<Longrightarrow>
   os_Stat env (Join [folder, tag]) s2 = (Inl e0, s3) \<Longrightarrow>
   downloadLatestRelease env url (main_tarGzPath folder tag)
       (main_downloading url (main_tarGzPath folder tag) s3) = (Inr u, s4) \<Longrightarrow>
   extractTarGzFile env (main_tarGzPath folder tag) folder
       (main_extracting (main_tarGzPath folder tag) folder s4) = (Inr u', s6) \<Longrightarrow>
   os_Remove env (main_tarGzPath folder tag) (main_removing (main_tarGzPath folder tag) s6)
       = (Inl err, s8) \<Longrightarrow>
   main_sync env folder s =
     (1, Fprintf_Stderr (''Error removing .tar.gz file: '' @ Error err @ nl) s8)"
  by (simp add: main_sync_def main_tarGzPath_def main_downloading_def main_extracting_def
      main_removing_def Let_def)

lemma main_sync_done:
  "getLatestReleaseURL env ''GloriousEggroll'' ''proton-ge-custom'' s = (Inr (tag, url), s2) \<Longrightarrow>
   os_Stat env (Join [folder, tag]) s2 = (Inl e0, s3) \<Longrightarrow>
   downloadLatestRelease env url (main_tarGzPath folder tag)
       (main_downloading url (main_tarGzPath folder tag) s3) = (Inr u, s4) \<Longrightarrow>
   extractTarGzFile env (main_tarGzPath folder tag) folder
       (main_extracting (main_tarGzPath folder tag) folder s4) = (Inr u', s6) \<Longrightarrow>
   os_Remove env (main_tarGzPath folder tag) (main_removing (main_tarGzPath folder tag) s6)
       = (Inr u'', s8) \<Longrightarrow>
   main_sync env folder s = (0, Printf (''.tar.gz file removed successfully.'' @ nl) s8)"
  by (simp add: main_sync_def main_tarGzPath_def main_downloading_def main_extracting_def
      main_removing_def Let_def)

lemma main_folder_Inl:
  "main_folder env s = (Inl c, s1) \<longleftrightarrow>
     c = 1
     \<and> ((UserHomeDir env = Inl HomeError
          \<and> s1 = Fprintf_Stderr (''Error getting home directory: '' @ Error HomeError @ nl) s)
        \<or> (\<exists>r s0 err s2.
              UserHomeDir env = Inr (HOME env)
            \<and> os_Stat env (Join [HOME env, ''.steam/steam/compatibilitytools.d/'']) s = (r, s0)
            \<and> IsNotExist r
            \<and> os_Mkdir env (Join [HOME env, ''.steam/steam/compatibilitytools.d/'']) s0 = (Inl err, s2)
            \<and> s1 = Fprintf_Stderr
                     (''Could not find or create: ''
                        @ Join [HOME env, ''.steam/steam/compatibilitytools.d/''] @ nl) s2))"
  by (auto simp: main_folder_def UserHomeDir_def Let_def split: prod.splits sum.splits if_splits)

lemma main_folder_Inr:
  "main_folder env s = (Inr folder, s1) \<Longrightarrow>
     folder = Join [HOME env, ''.steam/steam/compatibilitytools.d/''] \<and> HOME env \<noteq> []"
  by (auto simp: main_folder_def UserHomeDir_def Let_def split: prod.splits sum.splits if_splits)


subsection \<open>What the calls leave alone\<close>

lemma os_Stat_state: "os_Stat env p s = (r, s1) \<Longrightarrow> s1 = tick s"
  by (auto simp: os_Stat_def split: option.splits)

lemma os_Mkdir_out:
  "os_Mkdir env p s = (r, s1) \<Longrightarrow>
     stderr s1 = stderr s \<and> stdout s1 = stdout s \<and> net_log s1 = net_log s"
  by (auto simp: os_Mkdir_def Let_def split: option.splits if_splits)

lemma os_MkdirAll_out:
  "os_MkdirAll env p s = (r, s1) \<Longrightarrow>
     stderr s1 = stderr s \<and> stdout s1 = stdout s \<and> net_log s1 = net_log s"
  by (auto simp: os_MkdirAll_def Let_def split: option.splits if_splits)

lemma os_Create_out:
  "os_Create env p s = (r, s1) \<Longrightarrow>
     stderr s1 = stderr s \<and> stdout s1 = stdout s \<and> net_log s1 = net_log s"
  by (auto simp: os_Create_def Let_def split: option.splits if_splits)

lemma io_Copy_out:
  "io_Copy env out src s = (r, s1) \<Longrightarrow>
     stderr s1 = stderr s \<and> stdout s1 = stdout s \<and> net_log s1 = net_log s"
  by (auto simp: io_Copy_def split: option.splits if_splits)

lemma os_Open_state: "os_Open env p s = (r, s1) \<Longrightarrow> s1 = tick s"
  by (auto simp: os_Open_def split: option.splits)

lemma os_Remove_out:
  "os_Remove env p s = (r, s1) \<Longrightarrow>
     stderr s1 = stderr s \<and> stdout s1 = stdout s \<and> net_log s1 = net_log s"
  by (auto simp: os_Remove_def Let_def split: option.splits if_splits)

lemma os_Remove_Inl: "os_Remove env p s = (Inl err, s1) \<Longrightarrow> s1 = tick s"
  by (auto simp: os_Remove_def Let_def split: option.splits if_splits)

lemma entry_out:
  assumes "extractTarGzFile_entry env d e s = (r, s1)"
  shows "stderr s1 = stderr s \<and> stdout s1 = stdout s \<and> net_log s1 = net_log s"
proof (cases "hdr_Typeflag e = TypeDir")
  case True
  with assms os_MkdirAll_out show ?thesis by (simp add: entry_Dir)
next
  case nd: False
  show ?thesis
  proof (cases "hdr_Typeflag e = TypeReg")
    case True
    obtain rc s0 where c: "os_Create env (Join [d, hdr_Name e]) s = (rc, s0)" by force
    note c0 = os_Create_out [OF c]
    show ?thesis
    proof (cases rc)
      case (Inl err)
      with assms True c c0 show ?thesis by (simp add: entry_Reg)
    next
      case (Inr out)
      obtain rp s2 where p: "io_Copy env out (payload e, payload_err e) s0 = (rp, s2)" by force
      from assms True c Inr p have "s1 = s2" by (cases rp) (simp_all add: entry_Reg)
      with io_Copy_out [OF p] c0 show ?thesis by simp
    qed
  next
    case False
    with nd assms show ?thesis by (simp add: entry_skipped)
  qed
qed

lemma loop_out:
  "extractTarGzFile_loop env d es t s = (r, s1) \<Longrightarrow>
     stderr s1 = stderr s \<and> stdout s1 = stdout s \<and> net_log s1 = net_log s"
proof (induction es arbitrary: s)
  case Nil
  then show ?case by (cases t) auto
next
  case (Cons a es)
  obtain ra sa where a: "extractTarGzFile_entry env d a s = (ra, sa)" by force
  note a0 = entry_out [OF a]
  show ?case
  proof (cases ra)
    case (Inl err)
    with a a0 Cons.prems show ?thesis by simp
  next
    case (Inr u)
    with a Cons.prems have "extractTarGzFile_loop env d es t sa = (r, s1)" by simp
    from Cons.IH [OF this] a0 show ?thesis by simp
  qed
qed

lemma extract_out:
  assumes "extractTarGzFile env p d s = (r, s1)"
  shows "stderr s1 = stderr s \<and> stdout s1 = stdout s \<and> net_log s1 = net_log s"
proof -
  obtain ro s0 where o: "os_Open env p s = (ro, s0)" by force
  from os_Open_state [OF o] have s0: "s0 = tick s" .
  show ?thesis
  proof (cases ro)
    case (Inl err)
    with assms o s0 show ?thesis by (auto simp: extractTarGzFile_def)
  next
    case (Inr fl)
    show ?thesis
    proof (cases "gzip_NewReader env fl")
      case (Inl err)
      with assms o Inr s0 show ?thesis by (auto simp: extractTarGzFile_def)
    next
      case g: (Inr est)
      obtain es t where "est = (es, t)" by (cases est)
      with assms o Inr g have "extractTarGzFile_loop env d es t s0 = (r, s1)"
        by (simp add: extractTarGzFile_def)
      from loop_out [OF this] s0 show ?thesis by simp
    qed
  qed
qed

lemma resolver_state:
  "getLatestReleaseURL env owner repo s = (r, s1) \<Longrightarrow>
     s1 = s\<lparr>net_log := net_log s @ [apiURL owner repo]\<rparr>"
  by (auto simp: getLatestReleaseURL_def http_Get_def Let_def split: sum.splits if_splits)

lemma download_out:
  assumes "downloadLatestRelease env url p s = (r, s1)"
  shows "stderr s1 = stderr s \<and> stdout s1 = stdout s \<and> net_log s1 = net_log s @ [url]"
proof (cases "remote env url")
  case (Inl m)
  with assms show ?thesis by (auto simp: downloadLatestRelease_def http_Get_def)
next
  case (Inr body)
  let ?s0 = "s\<lparr>net_log := net_log s @ [url]\<rparr>"
  obtain rc s2 where c: "os_Create env p ?s0 = (rc, s2)" by force
  note c0 = os_Create_out [OF c]
  show ?thesis
  proof (cases rc)
    case (Inl err)
    with assms Inr c c0 show ?thesis by (auto simp: downloadLatestRelease_def http_Get_def)
  next
    case out: (Inr out)
    obtain rp s3 where p: "io_Copy env out body s2 = (rp, s3)" by force
    from assms Inr c out p have "s1 = s3"
      by (cases rp) (auto simp: downloadLatestRelease_def http_Get_def)
    with io_Copy_out [OF p] c0 show ?thesis by simp
  qed
qed

lemma main_folder_out:
  assumes "main_folder env s = (r, s1)"
  shows "stdout s1 = stdout s \<and> net_log s1 = net_log s
       \<and> (case r of Inl c \<Rightarrow> c = 1 \<and> (\<exists>msg. stderr s1 = stderr s @ [msg])
                    | Inr folder \<Rightarrow> stderr s1 = stderr s)"
proof (cases "HOME env = []")
  case True
  with assms show ?thesis
    by (auto simp: main_folder_def UserHomeDir_def Fprintf_Stderr_def)
next
  case False
  let ?f = "Join [HOME env, drop 2 ''~/.steam/steam/compatibilitytools.d/'']"
  obtain r0 s0 where st: "os_Stat env ?f s = (r0, s0)" by force
  from os_Stat_state [OF st] have s0: "s0 = tick s" .
  show ?thesis
  proof (cases "IsNotExist r0")
    case ne: False
    with assms False st s0 show ?thesis
      by (auto simp: main_folder_def UserHomeDir_def Let_def)
  next
    case True
    obtain rm sm where m: "os_Mkdir env ?f s0 = (rm, sm)" by force
    note m0 = os_Mkdir_out [OF m]
    from assms False st True m m0 s0 show ?thesis
      by (cases rm) (auto simp: main_folder_def UserHomeDir_def Let_def Fprintf_Stderr_def)
  qed
qed

subsection \<open>The exit status of main\<close>

lemma main_sync_status:
  "(fst (main_sync env folder s) = 1 \<and> (\<exists>msg. stderr (snd (main_sync env folder s)) = stderr s @ [msg]))
   \<or> (fst (main_sync env folder s) = 0 \<and> stderr (snd (main_sync env folder s)) = stderr s)"
proof -
  let ?GE = "''GloriousEggroll''" and ?PG = "''proton-ge-custom''"
  obtain r2 s2 where res: "getLatestReleaseURL env ?GE ?PG s = (r2, s2)" by force
  from resolver_state [OF res] have e2: "stderr s2 = stderr s" by simp
  show ?thesis
  proof (cases r2)
    case (Inl err)
    with main_sync_resolve_failed [of env s err s2 folder] res e2 show ?thesis
      by (simp add: Fprintf_Stderr_def)
  next
    case (Inr tu)
    obtain tag url where tu: "tu = (tag, url)" by (cases tu)
    note res' = res [unfolded Inr tu]
    obtain r3 s3 where st: "os_Stat env (Join [folder, tag]) s2 = (r3, s3)" by force
    from os_Stat_state [OF st] e2 have e3: "stderr s3 = stderr s" by simp
    show ?thesis
    proof (cases r3)
      case (Inr info)
      with main_sync_installed [OF res', of folder info s3] st e3 show ?thesis
        by (simp add: Printf_def)
    next
      case (Inl e0)
      note st' = st [unfolded Inl]
      let ?p = "main_tarGzPath folder tag"
      obtain r4 s4 where d: "downloadLatestRelease env url ?p (main_downloading url ?p s3) = (r4, s4)"
        by force
      from download_out [OF d] e3 have e4: "stderr s4 = stderr s"
        by (simp add: main_downloading_def Printf_def)
      show ?thesis
      proof (cases r4)
        case (Inl err)
        with main_sync_download_failed [OF res' st', of err s4] d e4 show ?thesis
          by (simp add: Fprintf_Stderr_def)
      next
        case (Inr u)
        note d' = d [unfolded Inr]
        obtain r6 s6 where x: "extractTarGzFile env ?p folder (main_extracting ?p folder s4) = (r6, s6)"
          by force
        from extract_out [OF x] e4 have e6: "stderr s6 = stderr s"
          by (simp add: main_extracting_def Printf_def)
        show ?thesis
        proof (cases r6)
          case (Inl err)
          with main_sync_extract_failed [OF res' st' d', of err s6] x e6 show ?thesis
            by (simp add: Fprintf_Stderr_def)
        next
          case (Inr u')
          note x' = x [unfolded Inr]
          obtain r8 s8 where rm: "os_Remove env ?p (main_removing ?p s6) = (r8, s8)" by force
          from os_Remove_out [OF rm] e6 have e8: "stderr s8 = stderr s"
            by (simp add: main_removing_def Printf_def)
          show ?thesis
          proof (cases r8)
            case (Inl err)
            with main_sync_remove_failed [OF res' st' d' x', of err s8] rm e8 show ?thesis
              by (simp add: Fprintf_Stderr_def)
          next
            case (Inr u'')
            with main_sync_done [OF res' st' d' x', of u'' s8] rm e8 show ?thesis
              by (simp add: Printf_def)
          qed
        qed
      qed
    qed
  qed
qed

lemma main_status:
  "(fst (main env s) = 1 \<and> (\<exists>msg. stderr (snd (main env s)) = stderr s @ [msg]))
   \<or> (fst (main env s) = 0 \<and> stderr (snd (main env s)) = stderr s)"
proof -
  obtain r1 s1 where f: "main_folder env s = (r1, s1)" by force
  note f0 = main_folder_out [OF f]
  show ?thesis
  proof (cases r1)
    case (Inl c)
    with f f0 show ?thesis by (simp add: main_def)
  next
    case (Inr folder)
    with f f0 main_sync_status [of env folder s1] show ?thesis by (simp add: main_def)
  qed
qed

subsection \<open>The extractor: every entry is written at the joined path\<close>

lemma loop_snoc_Inr:
  "extractTarGzFile_loop env d (dn @ [e]) None s1 = (Inr (), s3) \<longleftrightarrow>
     (\<exists>s2. extractTarGzFile_loop env d dn None s1 = (Inr (), s2)
          \<and> extractTarGzFile_entry env d e s2 = (Inr (), s3))"
  by (auto simp: loop_append split: prod.splits sum.splits)

text \<open>
  C2. During extraction every entry of the archive, whatever its name, is handed to
  the loop body with the destination directory the extraction was called with, and
  is written at \<^verbatim>\<open>filepath.Join(outputFolderPath, header.Name)\<close>: when the archive
  opens and the entries up to and including an entry \<open>e\<close> are applied without
  error, then in the state reached the joined path of \<open>e\<close> is a directory (for a
  directory entry) or a file with exactly the payload of \<open>e\<close> (for a regular file
  entry), \<open>e\<close> has changed no node but at that path or its ancestors, and
  \<^verbatim>\<open>extractTarGzFile\<close> goes on from that state with the entries after \<open>e\<close>. The
  name is not checked: there is an archive with an entry named
  \<^verbatim>\<open>../../etc/passwd\<close> whose extraction succeeds and writes the payload to a path
  that is not below the destination directory.
\<close>

theorem extraction_writes_at_joined_path:
  "(\<forall>fl s1 dn e rest t s2 s3.
       os_Open env p s = (Inr fl, s1) \<and> gzip_NewReader env fl = Inr (dn @ e # rest, t)
       \<and> extractTarGzFile_loop env d dn None s1 = (Inr (), s2)
       \<and> extractTarGzFile_loop env d (dn @ [e]) None s1 = (Inr (), s3) \<longrightarrow>
         extractTarGzFile env p d s = extractTarGzFile_loop env d rest t s3
       \<and> (hdr_Typeflag e = TypeDir \<longrightarrow>
            node_at (fs s3) (resolve env (Join [d, hdr_Name e])) = Some Dir)
       \<and> (hdr_Typeflag e = TypeReg \<longrightarrow>
            node_at (fs s3) (resolve env (Join [d, hdr_Name e])) = Some (File (payload e)))
       \<and> (\<forall>q. node_at (fs s3) q \<noteq> node_at (fs s2) q \<longrightarrow>
              prefix q (resolve env (Join [d, hdr_Name e]))))
   \<and> (\<exists>env' p' d' x t' t''.
         targz_Decode env' = (\<lambda>b. TarStream [x] None)
       \<and> extractTarGzFile env' p' d' t' = (Inr (), t'')
       \<and> hdr_Typeflag x = TypeReg
       \<and> hdr_Name x = ''../../etc/passwd''
       \<and> \<not> prefix (resolve env' d') (resolve env' (Join [d', hdr_Name x]))
       \<and> node_at (fs t') (resolve env' (Join [d', hdr_Name x])) = None
       \<and> node_at (fs t'') (resolve env' (Join [d', hdr_Name x])) = Some (File (payload x)))"
proof (intro conjI allI impI)
  fix fl s1 dn e rest t s2 s3
  assume a: "os_Open env p s = (Inr fl, s1) \<and> gzip_NewReader env fl = Inr (dn @ e # rest, t)
       \<and> extractTarGzFile_loop env d dn None s1 = (Inr (), s2)
       \<and> extractTarGzFile_loop env d (dn @ [e]) None s1 = (Inr (), s3)"
  then have e: "extractTarGzFile_entry env d e s2 = (Inr (), s3)"
    by (auto simp: loop_snoc_Inr)
  from a have "gzip_NewReader env fl = Inr ((dn @ [e]) @ rest, t)" by simp
  with a show "extractTarGzFile env p d s = extractTarGzFile_loop env d rest t s3"
    by (intro extract_after_prefix) auto
  note w = entry_at_joined_path [of env d e s2, THEN conjunct1, rule_format, OF e]
  {
    assume "hdr_Typeflag e = TypeDir"
    with w show "node_at (fs s3) (resolve env (Join [d, hdr_Name e])) = Some Dir" by simp
  }
  {
    assume "hdr_Typeflag e = TypeReg"
    with w show "node_at (fs s3) (resolve env (Join [d, hdr_Name e])) = Some (File (payload e))"
      by simp
  }
  {
    fix q
    assume "node_at (fs s3) q \<noteq> node_at (fs s2) q"
    with w show "prefix q (resolve env (Join [d, hdr_Name e]))" by simp
  }
next
  let ?env = "demo_env release_scenario (TarStream [entry_escape] None)"
  let ?t'' = "\<lparr>fs = fs_b @ [([''etc'', ''passwd''], File ''root'')], clock = 3,
               net_log = [], stdout = [], stderr = []\<rparr>"
  have j: "Join [''/h/d'', hdr_Name entry_escape] = ''/etc/passwd''"
    by (simp add: entry_escape_def Join.simps Clean_def splitSlash_def)
  have r1: "resolve ?env ''/etc/passwd'' = [''etc'', ''passwd'']"
    by (simp add: resolve_def splitSlash_def)
  have r2: "resolve ?env ''/h/d'' = [''h'', ''d'']"
    by (simp add: resolve_def splitSlash_def)
  have x: "extractTarGzFile ?env ''/h/d/a.tar.gz'' ''/h/d'' (demo_state fs_b) = (Inr (), ?t'')"
    by (simp add: extractTarGzFile_def os_Open_def gzip_NewReader_def run_defs Join.simps
        entry_escape_def fs_b_def)
  have "targz_Decode ?env = (\<lambda>b. TarStream [entry_escape] None)
       \<and> extractTarGzFile ?env ''/h/d/a.tar.gz'' ''/h/d'' (demo_state fs_b) = (Inr (), ?t'')
       \<and> hdr_Typeflag entry_escape = TypeReg
       \<and> hdr_Name entry_escape = ''../../etc/passwd''
       \<and> \<not> prefix (resolve ?env ''/h/d'') (resolve ?env (Join [''/h/d'', hdr_Name entry_escape]))
       \<and> node_at (fs (demo_state fs_b)) (resolve ?env (Join [''/h/d'', hdr_Name entry_escape])) = None
       \<and> node_at (fs ?t'') (resolve ?env (Join [''/h/d'', hdr_Name entry_escape]))
            = Some (File (payload entry_escape))"
    unfolding j r1 r2 using x
    by (simp add: entry_escape_def demo_state_def demo_env_def fs_b_def node_at_def)
  then show "\<exists>env' p' d' x t' t''.
         targz_Decode env' = (\<lambda>b. TarStream [x] None)
       \<and> extractTarGzFile env' p' d' t' = (Inr (), t'')
       \<and> hdr_Typeflag x = TypeReg
       \<and> hdr_Name x = ''../../etc/passwd''
       \<and> \<not> prefix (resolve env' d') (resolve env' (Join [d', hdr_Name x]))
       \<and> node_at (fs t') (resolve env' (Join [d', hdr_Name x])) = None
       \<and> node_at (fs t'') (resolve env' (Join [d', hdr_Name x])) = Some (File (payload x))"
    by blast
qed

theorem extraction_writes_at_joined_path_witness:
  "extractTarGzFile (demo_env release_scenario (TarStream ([entry_dir] @ entry_escape # [entry_run]) None))
       ''/h/d/a.tar.gz'' ''/h/d'' (demo_state fs_b)
     = (Inr (), \<lparr>fs = fs_b @ [([''h'', ''d'', ''bin''], Dir), ([''etc'', ''passwd''], File ''root''),
                       ([''h'', ''d'', ''bin'', ''run''], File ''ok'')], clock = 6,
                  net_log = [], stdout = [], stderr = []\<rparr>)
   \<and> Join [''/h/d'', hdr_Name entry_escape] = ''/etc/passwd''
   \<and> node_at (fs_b @ [([''h'', ''d'', ''bin''], Dir), ([''etc'', ''passwd''], File ''root'')])
        (resolve (demo_env release_scenario (TarStream ([entry_dir] @ entry_escape # [entry_run]) None))
           (Join [''/h/d'', hdr_Name entry_escape]))
      = Some (File ''root'')
   \<and> resolve (demo_env release_scenario (TarStream ([entry_dir] @ entry_escape # [entry_run]) None))
        ''/h/d'' = [''h'', ''d'']
   \<and> resolve (demo_env release_scenario (TarStream ([entry_dir] @ entry_escape # [entry_run]) None))
        ''/etc/passwd'' = [''etc'', ''passwd'']"
proof -
  let ?env = "demo_env release_scenario (TarStream ([entry_dir] @ entry_escape # [entry_run]) None)"
  let ?s1 = "\<lparr>fs = fs_b, clock = 1, net_log = [], stdout = [], stderr = []\<rparr>"
  let ?s2 = "\<lparr>fs = fs_b @ [([''h'', ''d'', ''bin''], Dir)], clock = 2,
              net_log = [], stdout = [], stderr = []\<rparr>"
  let ?s3 = "\<lparr>fs = fs_b @ [([''h'', ''d'', ''bin''], Dir), ([''etc'', ''passwd''], File ''root'')],
              clock = 4, net_log = [], stdout = [], stderr = []\<rparr>"
  let ?s4 = "\<lparr>fs = fs_b @ [([''h'', ''d'', ''bin''], Dir), ([''etc'', ''passwd''], File ''root''),
                       ([''h'', ''d'', ''bin'', ''run''], File ''ok'')], clock = 6,
              net_log = [], stdout = [], stderr = []\<rparr>"
  have j: "Join [''/h/d'', hdr_Name entry_escape] = ''/etc/passwd''"
    by (simp add: entry_escape_def Join.simps Clean_def splitSlash_def)
  have r1: "resolve ?env ''/etc/passwd'' = [''etc'', ''passwd'']"
    by (simp add: resolve_def splitSlash_def)
  have r2: "resolve ?env ''/h/d'' = [''h'', ''d'']"
    by (simp add: resolve_def splitSlash_def)
  have o: "os_Open ?env ''/h/d/a.tar.gz'' (demo_state fs_b) = (Inr (File ''gz''), ?s1)"
    by (simp add: os_Open_def run_defs fs_b_def)
  have g: "gzip_NewReader ?env (File ''gz'') = Inr ([entry_dir] @ entry_escape # [entry_run], None)"
    by (simp add: gzip_NewReader_def demo_env_def)
  have l2: "extractTarGzFile_loop ?env ''/h/d'' [entry_dir] None ?s1 = (Inr (), ?s2)"
    by (simp add: run_defs Join.simps entry_dir_def fs_b_def)
  have l3: "extractTarGzFile_loop ?env ''/h/d'' ([entry_dir] @ [entry_escape]) None ?s1 = (Inr (), ?s3)"
    by (simp add: run_defs Join.simps entry_dir_def entry_escape_def fs_b_def)
  have l4: "extractTarGzFile_loop ?env ''/h/d'' [entry_run] None ?s3 = (Inr (), ?s4)"
    by (simp add: run_defs Join.simps entry_run_def fs_b_def)
  have t: "hdr_Typeflag entry_escape = TypeReg" by (simp add: entry_escape_def)
  from extraction_writes_at_joined_path [of ?env "''/h/d/a.tar.gz''" "demo_state fs_b" "''/h/d''"]
  have "os_Open ?env ''/h/d/a.tar.gz'' (demo_state fs_b) = (Inr (File ''gz''), ?s1)
       \<and> gzip_NewReader ?env (File ''gz'') = Inr ([entry_dir] @ entry_escape # [entry_run], None)
       \<and> extractTarGzFile_loop ?env ''/h/d'' [entry_dir] None ?s1 = (Inr (), ?s2)
       \<and> extractTarGzFile_loop ?env ''/h/d'' ([entry_dir] @ [entry_escape]) None ?s1 = (Inr (), ?s3) \<longrightarrow>
         extractTarGzFile ?env ''/h/d/a.tar.gz'' ''/h/d'' (demo_state fs_b)
           = extractTarGzFile_loop ?env ''/h/d'' [entry_run] None ?s3
       \<and> (hdr_Typeflag entry_escape = TypeReg \<longrightarrow>
            node_at (fs ?s3) (resolve ?env (Join [''/h/d'', hdr_Name entry_escape]))
              = Some (File (payload entry_escape)))"
    by (elim conjE) blast
  with o g l2 l3 t
  have "extractTarGzFile ?env ''/h/d/a.tar.gz'' ''/h/d'' (demo_state fs_b)
           = extractTarGzFile_loop ?env ''/h/d'' [entry_run] None ?s3"
    and "node_at (fs ?s3) (resolve ?env (Join [''/h/d'', hdr_Name entry_escape]))
              = Some (File (payload entry_escape))"
    by blast+
  with l4 j r1 r2 show ?thesis by (simp add: entry_escape_def)
qed

lemmas main_defs = main_def main_folder_def main_sync_def UserHomeDir_def os_Stat_def os_Mkdir_def
  os_Open_def os_Remove_def has_children_def getLatestReleaseURL_def http_Get_def Decode_def apiURL_def
  downloadLatestRelease_def extractTarGzFile_def gzip_NewReader_def Printf_def Fprintf_Stderr_def nl_def
  Ext_def Join.simps

lemma main_sync_stages:
  "(\<forall>err s2. getLatestReleaseURL env ''GloriousEggroll'' ''proton-ge-custom'' s1 = (Inl err, s2) \<longrightarrow>
       main_sync env folder s1 =
         (1, Fprintf_Stderr (''Error fetching latest release information: '' @ Error err @ nl) s2))
   \<and> (\<forall>tag url s2.
         getLatestReleaseURL env ''GloriousEggroll'' ''proton-ge-custom'' s1 = (Inr (tag, url), s2) \<longrightarrow>
         (\<forall>info s3. os_Stat env (Join [folder, tag]) s2 = (Inr info, s3) \<longrightarrow>
            main_sync env folder s1 =
              (0, Printf (''The latest version of GE-Proton, '' @ tag
                            @ '', is already installed. Exiting...'' @ nl) s3))
       \<and> (\<forall>e0 s3. os_Stat env (Join [folder, tag]) s2 = (Inl e0, s3) \<longrightarrow>
            (\<forall>err s4.
               downloadLatestRelease env url (main_tarGzPath folder tag)
                 (main_downloading url (main_tarGzPath folder tag) s3) = (Inl err, s4) \<longrightarrow>
               main_sync env folder s1 =
                 (1, Fprintf_Stderr (''Error downloading .tar.gz file: '' @ Error err @ nl) s4))
          \<and> (\<forall>s4.
               downloadLatestRelease env url (main_tarGzPath folder tag)
                 (main_downloading url (main_tarGzPath folder tag) s3) = (Inr (), s4) \<longrightarrow>
               (\<forall>err s6.
                  extractTarGzFile env (main_tarGzPath folder tag) folder
                    (main_extracting (main_tarGzPath folder tag) folder s4) = (Inl err, s6) \<longrightarrow>
                  main_sync env folder s1 =
                    (1, Fprintf_Stderr (''Error extracting .tar.gz file: '' @ Error err @ nl) s6))
             \<and> (\<forall>s6.
                  extractTarGzFile env (main_tarGzPath folder tag) folder
                    (main_extracting (main_tarGzPath folder tag) folder s4) = (Inr (), s6) \<longrightarrow>
                  (\<forall>err s8.
                     os_Remove env (main_tarGzPath folder tag)
                       (main_removing (main_tarGzPath folder tag) s6) = (Inl err, s8) \<longrightarrow>
                     main_sync env folder s1 =
                       (1, Fprintf_Stderr (''Error removing .tar.gz file: '' @ Error err @ nl) s8)
                     \<and> fs s8 = fs s6)
                \<and> (\<forall>s8.
                     os_Remove env (main_tarGzPath folder tag)
                       (main_removing (main_tarGzPath folder tag) s6) = (Inr (), s8) \<longrightarrow>
                     main_sync env folder s1 =
                       (0, Printf (''.tar.gz file removed successfully.'' @ nl) s8))))))"
  apply (intro conjI allI impI)
        apply (erule main_sync_resolve_failed)
       apply (erule (1) main_sync_installed)
      apply (erule (2) main_sync_download_failed)
     apply (erule (3) main_sync_extract_failed)
    apply (erule (4) main_sync_remove_failed)
   apply (drule os_Remove_Inl, simp add: main_removing_def Printf_def)
  apply (erule (4) main_sync_done)
  done


lemmas cleanup_defs = env_remove_fault_def fs_home_def release_scenario_def entry_dir_def
  entry_run_def cleanup_folder_def cleanup_path_def cleanup_s1_def cleanup_s3_def cleanup_s4_def
  cleanup_s6_def main_tarGzPath_def main_downloading_def main_extracting_def main_removing_def

lemma cleanup_folder_stage:
  "main_folder env_remove_fault (demo_state fs_home) = (Inr cleanup_folder, cleanup_s1)"
  by (simp add: main_defs run_defs cleanup_defs)

lemma cleanup_resolve_stage:
  "getLatestReleaseURL env_remove_fault ''GloriousEggroll'' ''proton-ge-custom'' cleanup_s1
     = (Inr (''v1.2.3'', ''http://x/pkg.tar.gz''),
        cleanup_s1\<lparr>net_log := [apiURL ''GloriousEggroll'' ''proton-ge-custom'']\<rparr>)"
  by (simp add: main_defs run_defs cleanup_defs)

lemma cleanup_stat_stage:
  "os_Stat env_remove_fault (Join [cleanup_folder, ''v1.2.3''])
       (cleanup_s1\<lparr>net_log := [apiURL ''GloriousEggroll'' ''proton-ge-custom'']\<rparr>)
     = (Inl (StatError ENOENT), cleanup_s3)"
  by (simp add: main_defs run_defs cleanup_defs)

lemma cleanup_path_eq: "main_tarGzPath cleanup_folder ''v1.2.3'' = cleanup_path"
  by (simp add: main_defs run_defs cleanup_defs)

lemma cleanup_download_stage:
  "downloadLatestRelease env_remove_fault ''http://x/pkg.tar.gz'' cleanup_path
       (main_downloading ''http://x/pkg.tar.gz'' cleanup_path cleanup_s3)
     = (Inr (), cleanup_s4)"
  by (simp add: main_defs run_defs cleanup_defs)

lemma cleanup_extract_stage:
  "extractTarGzFile env_remove_fault cleanup_path cleanup_folder
       (main_extracting cleanup_path cleanup_folder cleanup_s4)
     = (Inr (), cleanup_s6)"
  by (simp add: main_defs run_defs cleanup_defs)

lemma cleanup_remove_stage:
  "os_Remove env_remove_fault cleanup_path (main_removing cleanup_path cleanup_s6)
     = (Inl (RemoveError EACCES), (main_removing cleanup_path cleanup_s6)\<lparr>clock := 9\<rparr>)"
  by (simp add: main_defs run_defs cleanup_defs)


lemma main_folder_fails_iff:
  "(\<exists>c s1. main_folder env s = (Inl c, s1)) \<longleftrightarrow>
     HOME env = []
   \<or> (\<exists>r s0 err s2.
         os_Stat env (Join [HOME env, ''.steam/steam/compatibilitytools.d/'']) s = (r, s0)
       \<and> IsNotExist r
       \<and> os_Mkdir env (Join [HOME env, ''.steam/steam/compatibilitytools.d/'']) s0 = (Inl err, s2))"
proof (cases "HOME env = []")
  case True
  then show ?thesis by (simp add: main_folder_def UserHomeDir_def)
next
  case False
  let ?f = "Join [HOME env, ''.steam/steam/compatibilitytools.d/'']"
  obtain r0 s0 where st: "os_Stat env ?f s = (r0, s0)" by force
  obtain rm sm where m: "os_Mkdir env ?f s0 = (rm, sm)" by force
  from False st m show ?thesis
    by (cases rm) (auto simp: main_folder_def UserHomeDir_def Let_def)
qed

text \<open>
  C8 (as amended). The process exits with status 0 or 1. It exits with 1 exactly
  when one error message has been added to the error stream, and that is the case
  when \<^verbatim>\<open>$HOME\<close> is not set or the folder cannot be made, when the resolution
  fails, when the download fails, when the extraction fails, and also when the
  temporary archive cannot be removed after a successful extraction; it exits with 0,
  with nothing added to the error stream, when the latest version is already installed
  and when every stage has succeeded. After a failed removal the file system is as
  the extraction left it.
\<close>

theorem main_exit_status:
  "(fst (main env s) = 0 \<or> fst (main env s) = 1)
   \<and> (fst (main env s) = 1 \<longleftrightarrow> (\<exists>msg. stderr (snd (main env s)) = stderr s @ [msg]))
   \<and> (fst (main env s) = 0 \<longleftrightarrow> stderr (snd (main env s)) = stderr s)
   \<and> ((\<exists>c s1. main_folder env s = (Inl c, s1)) \<longleftrightarrow>
         HOME env = []
       \<or> (\<exists>r s0 err s2.
             os_Stat env (Join [HOME env, ''.steam/steam/compatibilitytools.d/'']) s = (r, s0)
           \<and> IsNotExist r
           \<and> os_Mkdir env (Join [HOME env, ''.steam/steam/compatibilitytools.d/'']) s0 = (Inl err, s2)))
   \<and> (\<forall>c s1. main_folder env s = (Inl c, s1) \<longrightarrow> main env s = (1, s1))
   \<and> (\<forall>folder s1. main_folder env s = (Inr folder, s1) \<longrightarrow>
         main env s = main_sync env folder s1
       \<and> (\<forall>err s2. getLatestReleaseURL env ''GloriousEggroll'' ''proton-ge-custom'' s1 = (Inl err, s2) \<longrightarrow>
             main_sync env folder s1 =
               (1, Fprintf_Stderr (''Error fetching latest release information: '' @ Error err @ nl) s2))
       \<and> (\<forall>tag url s2.
             getLatestReleaseURL env ''GloriousEggroll'' ''proton-ge-custom'' s1 = (Inr (tag, url), s2) \<longrightarrow>
             (\<forall>info s3. os_Stat env (Join [folder, tag]) s2 = (Inr info, s3) \<longrightarrow>
                main_sync env folder s1 =
                  (0, Printf (''The latest version of GE-Proton, '' @ tag
                                @ '', is already installed. Exiting...'' @ nl) s3))
           \<and> (\<forall>e0 s3. os_Stat env (Join [folder, tag]) s2 = (Inl e0, s3) \<longrightarrow>
                (\<forall>err s4.
                   downloadLatestRelease env url (main_tarGzPath folder tag)
                     (main_downloading url (main_tarGzPath folder tag) s3) = (Inl err, s4) \<longrightarrow>
                   main_sync env folder s1 =
                     (1, Fprintf_Stderr (''Error downloading .tar.gz file: '' @ Error err @ nl) s4))
              \<and> (\<forall>s4.
                   downloadLatestRelease env url (main_tarGzPath folder tag)
                     (main_downloading url (main_tarGzPath folder tag) s3) = (Inr (), s4) \<longrightarrow>
                   (\<forall>err s6.
                      extractTarGzFile env (main_tarGzPath folder tag) folder
                        (main_extracting (main_tarGzPath folder tag) folder s4) = (Inl err, s6) \<longrightarrow>
                      main_sync env folder s1 =
                        (1, Fprintf_Stderr (''Error extracting .tar.gz file: '' @ Error err @ nl) s6))
                 \<and> (\<forall>s6.
                      extractTarGzFile env (main_tarGzPath folder tag) folder
                        (main_extracting (main_tarGzPath folder tag) folder s4) = (Inr (), s6) \<longrightarrow>
                      (\<forall>err s8.
                         os_Remove env (main_tarGzPath folder tag)
                           (main_removing (main_tarGzPath folder tag) s6) = (Inl err, s8) \<longrightarrow>
                         main_sync env folder s1 =
                           (1, Fprintf_Stderr (''Error removing .tar.gz file: '' @ Error err @ nl) s8)
                         \<and> fs s8 = fs s6)
                    \<and> (\<forall>s8.
                         os_Remove env (main_tarGzPath folder tag)
                           (main_removing (main_tarGzPath folder tag) s6) = (Inr (), s8) \<longrightarrow>
                         main_sync env folder s1 =
                           (0, Printf (''.tar.gz file removed successfully.'' @ nl) s8)))))))"
  (is "?A \<and> ?B \<and> ?C \<and> ?D \<and> ?E \<and> (\<forall>folder s1. ?F folder s1 \<longrightarrow> ?M folder s1 \<and> ?N folder s1)")
proof -
  note st = main_status [of env s]
  have a: ?A using st by blast
  have b: ?B using st by auto
  have c: ?C using st by auto
  have d: ?D by (rule main_folder_fails_iff)
  have e: ?E
  proof (intro allI impI)
    fix c s1
    assume f: "main_folder env s = (Inl c, s1)"
    from main_folder_out [OF f] have "c = 1" by simp
    with f show "main env s = (1, s1)" by (simp add: main_def)
  qed
  have n: "\<forall>folder s1. ?F folder s1 \<longrightarrow> ?M folder s1 \<and> ?N folder s1"
  proof (intro allI impI)
    fix folder s1
    assume f: "?F folder s1"
    then have "?M folder s1" by (simp add: main_def)
    moreover have "?N folder s1" by (rule main_sync_stages)
    ultimately show "?M folder s1 \<and> ?N folder s1" by (rule conjI)
  qed
  from a b c d e n show ?thesis by (intro conjI)
qed


theorem main_exit_status_witness:
  "main env_remove_fault (demo_state fs_home)
     = (1, Fprintf_Stderr (''Error removing .tar.gz file: '' @ Error (RemoveError EACCES) @ nl)
             ((main_removing cleanup_path cleanup_s6)\<lparr>clock := 9\<rparr>))
   \<and> fs ((main_removing cleanup_path cleanup_s6)\<lparr>clock := 9\<rparr>) = fs cleanup_s6
   \<and> map_of (fs cleanup_s6) [''h'', ''.steam'', ''steam'', ''compatibilitytools.d'', ''bin'', ''run'']
       = Some (File ''ok'')"
proof -
  let ?E = env_remove_fault
  let ?S2 = "cleanup_s1\<lparr>net_log := [apiURL ''GloriousEggroll'' ''proton-ge-custom'']\<rparr>"
  let ?P = "main_tarGzPath cleanup_folder ''v1.2.3''"
  let ?url = "''http://x/pkg.tar.gz''"
  note T = main_exit_status [of ?E "demo_state fs_home", THEN conjunct2, THEN conjunct2,
      THEN conjunct2, THEN conjunct2, THEN conjunct2, rule_format, OF cleanup_folder_stage]
  note m = T [THEN conjunct1]
  note T2 = T [THEN conjunct2, THEN conjunct2, rule_format, OF cleanup_resolve_stage]
  note T3 = T2 [THEN conjunct2, rule_format, OF cleanup_stat_stage]
  have d: "downloadLatestRelease ?E ?url ?P (main_downloading ?url ?P cleanup_s3) = (Inr (), cleanup_s4)"
    by (simp add: cleanup_path_eq cleanup_download_stage)
  note T4 = T3 [THEN conjunct2, rule_format, OF d]
  have x: "extractTarGzFile ?E ?P cleanup_folder (main_extracting ?P cleanup_folder cleanup_s4)
      = (Inr (), cleanup_s6)"
    by (simp add: cleanup_path_eq cleanup_extract_stage)
  note T5 = T4 [THEN conjunct2, rule_format, OF x]
  have r: "os_Remove ?E ?P (main_removing ?P cleanup_s6)
      = (Inl (RemoveError EACCES), (main_removing cleanup_path cleanup_s6)\<lparr>clock := 9\<rparr>)"
    by (simp add: cleanup_path_eq cleanup_remove_stage)
  note T6 = T5 [THEN conjunct1, rule_format, OF r]
  have c: "map_of (fs cleanup_s6) [''h'', ''.steam'', ''steam'', ''compatibilitytools.d'', ''bin'', ''run'']
       = Some (File ''ok'')"
    by (simp add: cleanup_defs Printf_def demo_state_def)
  from m T6 c show ?thesis by simp
qed

text \<open>
  The claim as stated fails where only the removal of the temporary archive fails:
  the folder is found, the resolution, the download and the extraction succeed, and
  the exit status is 1.
\<close>

theorem main_exit_status_counterexample:
  "fst (main_folder env_remove_fault (demo_state fs_home)) = Inr cleanup_folder
   \<and> fst (getLatestReleaseURL env_remove_fault ''GloriousEggroll'' ''proton-ge-custom'' cleanup_s1)
       = Inr (''v1.2.3'', ''http://x/pkg.tar.gz'')
   \<and> fst (downloadLatestRelease env_remove_fault ''http://x/pkg.tar.gz'' cleanup_path
            (main_downloading ''http://x/pkg.tar.gz'' cleanup_path cleanup_s3)) = Inr ()
   \<and> fst (extractTarGzFile env_remove_fault cleanup_path cleanup_folder
            (main_extracting cleanup_path cleanup_folder cleanup_s4)) = Inr ()
   \<and> fst (main env_remove_fault (demo_state fs_home)) = 1
   \<and> stderr (snd (main env_remove_fault (demo_state fs_home)))
       = [''Error removing .tar.gz file: remove: permission denied'' @ nl]"
proof -
  let ?E = env_remove_fault
  let ?P = "main_tarGzPath cleanup_folder ''v1.2.3''"
  let ?url = "''http://x/pkg.tar.gz''"
  have d: "downloadLatestRelease ?E ?url ?P (main_downloading ?url ?P cleanup_s3) = (Inr (), cleanup_s4)"
    by (simp add: cleanup_path_eq cleanup_download_stage)
  have x: "extractTarGzFile ?E ?P cleanup_folder (main_extracting ?P cleanup_folder cleanup_s4)
      = (Inr (), cleanup_s6)"
    by (simp add: cleanup_path_eq cleanup_extract_stage)
  have r: "os_Remove ?E ?P (main_removing ?P cleanup_s6)
      = (Inl (RemoveError EACCES), (main_removing cleanup_path cleanup_s6)\<lparr>clock := 9\<rparr>)"
    by (simp add: cleanup_path_eq cleanup_remove_stage)
  have "main ?E (demo_state fs_home) = main_sync ?E cleanup_folder cleanup_s1"
    by (simp add: main_def cleanup_folder_stage)
  also have "\<dots> = (1, Fprintf_Stderr (''Error removing .tar.gz file: '' @ Error (RemoveError EACCES) @ nl)
             ((main_removing cleanup_path cleanup_s6)\<lparr>clock := 9\<rparr>))"
    by (rule main_sync_remove_failed [OF cleanup_resolve_stage cleanup_stat_stage d x r])
  finally have m: "main ?E (demo_state fs_home)
      = (1, Fprintf_Stderr (''Error removing .tar.gz file: '' @ Error (RemoveError EACCES) @ nl)
             ((main_removing cleanup_path cleanup_s6)\<lparr>clock := 9\<rparr>))" .
  have e: "stderr (snd (main ?E (demo_state fs_home)))
       = [''Error removing .tar.gz file: remove: permission denied'' @ nl]"
    unfolding m
    by (simp add: Fprintf_Stderr_def main_removing_def main_extracting_def main_downloading_def
        cleanup_s6_def cleanup_s4_def cleanup_s3_def Printf_def demo_state_def)
  from m e show ?thesis
    by (simp add: cleanup_folder_stage cleanup_resolve_stage cleanup_download_stage
        cleanup_extract_stage)
qed

subsection \<open>The version is already installed\<close>







subsection \<open>The extractor: fidelity\<close>

lemma clean_elems_nonempty: "[] \<notin> set out \<Longrightarrow> [] \<notin> set (clean_elems r out xs)"
proof (induction xs arbitrary: out)
  case Nil
  then show ?case by simp
next
  case (Cons a xs)
  have b: "[] \<notin> set (butlast out)" using Cons.prems by (auto dest: in_set_butlastD)
  have 1: "[] \<notin> set (clean_elems r out xs)" using Cons.prems by (rule Cons.IH)
  have 2: "[] \<notin> set (clean_elems r (butlast out) xs)" using b by (rule Cons.IH)
  have 3: "[] \<notin> set (clean_elems r (out @ [a]) xs)" if "a \<noteq> []"
    using Cons.prems that by (intro Cons.IH) simp
  show ?case
  proof (cases "a = []")
    case True
    with 1 show ?thesis by simp
  next
    case False
    from 3 [OF False] 1 2 show ?thesis by (simp only: clean_elems.simps split: if_split) simp
  qed
qed

lemma joinSlash_nonempty: "out \<noteq> [] \<Longrightarrow> [] \<notin> set out \<Longrightarrow> joinSlash out \<noteq> []"
proof (cases out)
  case Nil
  assume "out \<noteq> []"
  with Nil show ?thesis by simp
next
  case (Cons x xs)
  assume "[] \<notin> set out"
  with Cons have "x \<noteq> []" by auto
  with Cons show ?thesis by (cases xs) simp_all
qed

lemma Clean_nonempty: "Clean p \<noteq> []"
proof (cases "p = []")
  case True
  then show ?thesis by (simp add: Clean_def)
next
  case False
  define out where "out = clean_elems (hd p = CHR ''/'') [] (splitSlash p)"
  have ne: "[] \<notin> set out" unfolding out_def by (rule clean_elems_nonempty) simp
  have c: "Clean p = (if hd p = CHR ''/'' then CHR ''/'' # joinSlash out
                      else if out = [] then ''.'' else joinSlash out)"
    using False by (simp add: Clean_def Let_def out_def)
  show ?thesis
  proof (cases "out = []")
    case True
    with c show ?thesis by simp
  next
    case ne': False
    from joinSlash_nonempty [OF ne' ne] c show ?thesis by simp
  qed
qed

lemma Join_nonempty: "d \<noteq> [] \<Longrightarrow> Join [d, x] \<noteq> []"
  by (simp add: Join.simps Clean_nonempty)

lemma os_MkdirAll_ok:
  assumes "faults env (clock s) = None" and "p \<noteq> []"
    and "\<forall>q. prefix q (resolve env p) \<longrightarrow> \<not> is_File (node_at (fs s) q)"
  shows "os_MkdirAll env p s = (Inr (), tick (s\<lparr>fs := mkdirs (fs s) (prefixes (resolve env p))\<rparr>))"
  using assms by (simp add: os_MkdirAll_def Let_def list_ex_iff)

lemma not_blocked:
  assumes "\<forall>q. strict_prefix q c \<longrightarrow> \<not> is_File (node_at f q)"
  shows "\<not> blocked f c"
proof
  assume "blocked f c"
  then obtain q where q: "prefix q (butlast c)" "is_File (node_at f q)"
    by (auto simp: blocked_def list_ex_iff)
  show False
  proof (cases c rule: rev_cases)
    case Nil
    with q show False by simp
  next
    case (snoc ys y)
    with q(1) have p: "prefix q ys" by simp
    then have "prefix q (ys @ [y])" by (rule prefix_prefix)
    moreover from prefix_length_le [OF p] have "q \<noteq> ys @ [y]" by auto
    ultimately have "strict_prefix q c" using snoc by (simp add: strict_prefix_def)
    with assms q(2) show False by blast
  qed
qed

lemma entry_Reg_ok:
  assumes "faults env (clock s) = None" and "faults env (Suc (clock s)) = None"
    and "hdr_Typeflag e = TypeReg" and "payload_err e = None"
    and "Join [d, hdr_Name e] \<noteq> []"
    and "\<forall>q. strict_prefix q (resolve env (Join [d, hdr_Name e])) \<longrightarrow> \<not> is_File (node_at (fs s) q)"
    and "node_at (fs s) (butlast (resolve env (Join [d, hdr_Name e]))) \<noteq> None"
    and "node_at (fs s) (resolve env (Join [d, hdr_Name e])) \<noteq> Some Dir"
  shows "\<exists>s'. extractTarGzFile_entry env d e s = (Inr (), s')
           \<and> fs s' = AList.update (resolve env (Join [d, hdr_Name e])) (File (payload e)) (fs s)
           \<and> clock s' = Suc (Suc (clock s))"
proof -
  let ?c = "resolve env (Join [d, hdr_Name e])"
  from assms(6) have nb: "\<not> blocked (fs s) ?c" by (rule not_blocked)
  let ?s1 = "tick (s\<lparr>fs := AList.update ?c (File []) (fs s)\<rparr>)"
  from assms nb have c: "os_Create env (Join [d, hdr_Name e]) s = (Inr ?c, ?s1)"
    by (simp add: os_Create_def Let_def)
  from assms have "io_Copy env ?c (payload e, payload_err e) ?s1
      = (Inr (length (payload e)),
         tick (?s1\<lparr>fs := AList.update ?c (File (written (fs ?s1) ?c @ payload e)) (fs ?s1)\<rparr>))"
    by (simp add: io_Copy_def)
  with c assms(3) show ?thesis by (simp add: entry_Reg)
qed

lemma entry_Dir_ok:
  assumes "faults env (clock s) = None"
    and "hdr_Typeflag e = TypeDir"
    and "Join [d, hdr_Name e] \<noteq> []"
    and "\<forall>q. prefix q (resolve env (Join [d, hdr_Name e])) \<longrightarrow> \<not> is_File (node_at (fs s) q)"
  shows "\<exists>s'. extractTarGzFile_entry env d e s = (Inr (), s')
           \<and> fs s' = mkdirs (fs s) (prefixes (resolve env (Join [d, hdr_Name e])))
           \<and> clock s' = Suc (clock s)"
  using assms os_MkdirAll_ok [of env s "Join [d, hdr_Name e]"] by (simp add: entry_Dir)

lemma loop_fidelity:
  fixes env :: env and d :: string and s :: state
  assumes nf: "\<forall>k. faults env k = None" and d: "d \<noteq> []"
  shows "(\<forall>e\<in>set es. hdr_Typeflag e = TypeDir \<or> hdr_Typeflag e = TypeReg) \<Longrightarrow>
     (\<forall>e\<in>set es. hdr_Typeflag e = TypeReg \<longrightarrow> payload_err e = None) \<Longrightarrow>
     (\<forall>e\<in>set es. hdr_Typeflag e = TypeDir \<longrightarrow>
        (\<forall>q. prefix q (entry_target env d e) \<longrightarrow> \<not> is_File (node_at (fs s) q))) \<Longrightarrow>
     (\<forall>e\<in>set es. hdr_Typeflag e = TypeReg \<longrightarrow>
        node_at (fs s) (entry_target env d e) \<noteq> Some Dir
        \<and> (\<forall>q. strict_prefix q (entry_target env d e) \<longrightarrow> \<not> is_File (node_at (fs s) q))) \<Longrightarrow>
     (\<forall>i<length es. hdr_Typeflag (es ! i) = TypeReg \<longrightarrow>
        node_at (fs s) (butlast (entry_target env d (es ! i))) = Some Dir
        \<or> (\<exists>j<i. hdr_Typeflag (es ! j) = TypeDir
              \<and> prefix (butlast (entry_target env d (es ! i))) (entry_target env d (es ! j)))) \<Longrightarrow>
     (\<forall>i<length es. \<forall>j<length es. hdr_Typeflag (es ! i) = TypeReg \<and> j \<noteq> i \<longrightarrow>
        \<not> prefix (entry_target env d (es ! i)) (entry_target env d (es ! j))) \<Longrightarrow>
     \<exists>s'. extractTarGzFile_loop env d es None s = (Inr (), s')
       \<and> (\<forall>q. node_at (fs s) q = Some Dir \<longrightarrow> node_at (fs s') q = Some Dir)
       \<and> (\<forall>q. is_File (node_at (fs s') q) \<longrightarrow>
              is_File (node_at (fs s) q)
              \<or> (\<exists>e\<in>set es. hdr_Typeflag e = TypeReg \<and> q = entry_target env d e))
       \<and> (\<forall>q. node_at (fs s') q = Some Dir \<longrightarrow>
              node_at (fs s) q = Some Dir
              \<or> (\<exists>e\<in>set es. hdr_Typeflag e = TypeDir \<and> prefix q (entry_target env d e)))
       \<and> (\<forall>e\<in>set es. hdr_Typeflag e = TypeDir \<longrightarrow>
              (\<forall>q. prefix q (entry_target env d e) \<longrightarrow> node_at (fs s') q = Some Dir))
       \<and> (\<forall>e\<in>set es. hdr_Typeflag e = TypeReg \<longrightarrow>
              node_at (fs s') (entry_target env d e) = Some (File (payload e)))"
proof (induction es rule: rev_induct)
  case Nil
  then show ?case by simp
next
  case (snoc e es)
  define T where "T = entry_target env d"
  define f where "f = fs s"
  note K = snoc.prems(1) and P = snoc.prems(2) and DF = snoc.prems(3) [folded T_def f_def]
    and FF = snoc.prems(4) [folded T_def f_def] and PA = snoc.prems(5) [folded T_def f_def]
    and NC = snoc.prems(6) [folded T_def f_def]
  let ?n = "length es"
  have nth1: "(es @ [e]) ! i = es ! i" if "i < ?n" for i using that by (simp add: nth_append)
  have nthn: "(es @ [e]) ! ?n = e" by simp
  \<comment> \<open>the hypotheses for the earlier entries\<close>
  have PA': "\<forall>i<length es. hdr_Typeflag (es ! i) = TypeReg \<longrightarrow>
        node_at f (butlast (T (es ! i))) = Some Dir
        \<or> (\<exists>j<i. hdr_Typeflag (es ! j) = TypeDir \<and> prefix (butlast (T (es ! i))) (T (es ! j)))"
  proof (intro allI impI)
    fix i assume i: "i < length es" and r: "hdr_Typeflag (es ! i) = TypeReg"
    from PA [rule_format, of i] i r nth1 [OF i]
    have "node_at f (butlast (T (es ! i))) = Some Dir
        \<or> (\<exists>j<i. hdr_Typeflag ((es @ [e]) ! j) = TypeDir
              \<and> prefix (butlast (T (es ! i))) (T ((es @ [e]) ! j)))" by simp
    then show "node_at f (butlast (T (es ! i))) = Some Dir
        \<or> (\<exists>j<i. hdr_Typeflag (es ! j) = TypeDir \<and> prefix (butlast (T (es ! i))) (T (es ! j)))"
    proof
      assume "node_at f (butlast (T (es ! i))) = Some Dir"
      then show ?thesis ..
    next
      assume "\<exists>j<i. hdr_Typeflag ((es @ [e]) ! j) = TypeDir
              \<and> prefix (butlast (T (es ! i))) (T ((es @ [e]) ! j))"
      then obtain j where j: "j < i" "hdr_Typeflag ((es @ [e]) ! j) = TypeDir"
        "prefix (butlast (T (es ! i))) (T ((es @ [e]) ! j))" by blast
      from j(1) i have "j < length es" by simp
      from nth1 [OF this] j show ?thesis by auto
    qed
  qed
  have NC': "\<forall>i<length es. \<forall>j<length es. hdr_Typeflag (es ! i) = TypeReg \<and> j \<noteq> i \<longrightarrow>
        \<not> prefix (T (es ! i)) (T (es ! j))"
  proof (intro allI impI)
    fix i j assume i: "i < length es" and j: "j < length es"
      and r: "hdr_Typeflag (es ! i) = TypeReg \<and> j \<noteq> i"
    from NC [rule_format, of i j] i j r nth1 [OF i] nth1 [OF j]
    show "\<not> prefix (T (es ! i)) (T (es ! j))" by simp
  qed
  from snoc.IH [OF _ _ _ _ PA' [unfolded T_def f_def] NC' [unfolded T_def f_def]] K P
    snoc.prems(3) snoc.prems(4)
  obtain s2 where l: "extractTarGzFile_loop env d es None s = (Inr (), s2)"
    and I1: "\<forall>q. node_at f q = Some Dir \<longrightarrow> node_at (fs s2) q = Some Dir"
    and I2: "\<forall>q. is_File (node_at (fs s2) q) \<longrightarrow>
              is_File (node_at f q) \<or> (\<exists>x\<in>set es. hdr_Typeflag x = TypeReg \<and> q = T x)"
    and I3: "\<forall>q. node_at (fs s2) q = Some Dir \<longrightarrow>
              node_at f q = Some Dir \<or> (\<exists>x\<in>set es. hdr_Typeflag x = TypeDir \<and> prefix q (T x))"
    and I4: "\<forall>x\<in>set es. hdr_Typeflag x = TypeDir \<longrightarrow>
              (\<forall>q. prefix q (T x) \<longrightarrow> node_at (fs s2) q = Some Dir)"
    and I5: "\<forall>x\<in>set es. hdr_Typeflag x = TypeReg \<longrightarrow>
              node_at (fs s2) (T x) = Some (File (payload x))"
    unfolding T_def f_def by auto
  \<comment> \<open>what the hypotheses say about the last entry\<close>
  have NC1: "\<not> prefix (T e) (T x)" if "hdr_Typeflag e = TypeReg" "x \<in> set es" for x
  proof -
    from that(2) obtain j where j: "j < length es" "es ! j = x" by (auto simp: in_set_conv_nth)
    from NC [rule_format, of ?n j] j that(1) nth1 [OF j(1)] show ?thesis by simp
  qed
  have NC2: "\<not> prefix (T x) (T e)" if "hdr_Typeflag x = TypeReg" "x \<in> set es" for x
  proof -
    from that(2) obtain i where i: "i < length es" "es ! i = x" by (auto simp: in_set_conv_nth)
    from NC [rule_format, of i ?n] i that(1) nth1 [OF i(1)] show ?thesis by simp
  qed
  have PAe: "node_at f (butlast (T e)) = Some Dir
      \<or> (\<exists>x\<in>set es. hdr_Typeflag x = TypeDir \<and> prefix (butlast (T e)) (T x))"
    if r: "hdr_Typeflag e = TypeReg"
  proof -
    from PA [rule_format, of ?n] r
    have "node_at f (butlast (T e)) = Some Dir
        \<or> (\<exists>j<?n. hdr_Typeflag ((es @ [e]) ! j) = TypeDir
              \<and> prefix (butlast (T e)) (T ((es @ [e]) ! j)))" by simp
    then show ?thesis
    proof
      assume "node_at f (butlast (T e)) = Some Dir"
      then show ?thesis ..
    next
      assume "\<exists>j<?n. hdr_Typeflag ((es @ [e]) ! j) = TypeDir
              \<and> prefix (butlast (T e)) (T ((es @ [e]) ! j))"
      then obtain j where j: "j < ?n" "hdr_Typeflag ((es @ [e]) ! j) = TypeDir"
        "prefix (butlast (T e)) (T ((es @ [e]) ! j))" by blast
      from nth1 [OF j(1)] j have "es ! j \<in> set es \<and> hdr_Typeflag (es ! j) = TypeDir
          \<and> prefix (butlast (T e)) (T (es ! j))" by simp
      then show ?thesis by blast
    qed
  qed
  have jn: "Join [d, hdr_Name e] \<noteq> []" using d by (rule Join_nonempty)
  have Te: "T e = resolve env (Join [d, hdr_Name e])" by (simp add: T_def entry_target_def)
  have nfk: "faults env k = None" for k using nf by simp
  from K have kind: "hdr_Typeflag e = TypeDir \<or> hdr_Typeflag e = TypeReg" by simp
  then show ?case
  proof
    assume dir: "hdr_Typeflag e = TypeDir"
    have nofile: "\<forall>q. prefix q (T e) \<longrightarrow> \<not> is_File (node_at (fs s2) q)"
    proof (intro allI impI notI)
      fix q assume q: "prefix q (T e)" and fl: "is_File (node_at (fs s2) q)"
      from I2 fl have "is_File (node_at f q) \<or> (\<exists>x\<in>set es. hdr_Typeflag x = TypeReg \<and> q = T x)"
        by blast
      then show False
      proof
        assume "is_File (node_at f q)"
        with DF dir q show False by simp
      next
        assume "\<exists>x\<in>set es. hdr_Typeflag x = TypeReg \<and> q = T x"
        with NC2 q show False by blast
      qed
    qed
    from entry_Dir_ok [OF nfk dir jn nofile [unfolded Te]]
    obtain s3 where e3: "extractTarGzFile_entry env d e s2 = (Inr (), s3)"
      and f3: "fs s3 = mkdirs (fs s2) (prefixes (T e))" unfolding Te by blast
    from l e3 have l3: "extractTarGzFile_loop env d (es @ [e]) None s = (Inr (), s3)"
      by (auto simp: loop_snoc_Inr)
    have keep: "node_at (fs s3) q = node_at (fs s2) q" if "node_at (fs s2) q \<noteq> None" for q
      using that by (simp add: f3 mkdirs_keeps)
    have J1: "\<forall>q. node_at f q = Some Dir \<longrightarrow> node_at (fs s3) q = Some Dir"
      using I1 keep by auto
    have J2: "\<forall>q. is_File (node_at (fs s3) q) \<longrightarrow>
              is_File (node_at f q) \<or> (\<exists>x\<in>set (es @ [e]). hdr_Typeflag x = TypeReg \<and> q = T x)"
    proof (intro allI impI)
      fix q assume fl: "is_File (node_at (fs s3) q)"
      have "node_at (fs s3) q = node_at (fs s2) q"
      proof (rule ccontr)
        assume "node_at (fs s3) q \<noteq> node_at (fs s2) q"
        from mkdirs_changes [OF this [unfolded f3]] f3 fl show False by simp
      qed
      with fl I2 show "is_File (node_at f q)
          \<or> (\<exists>x\<in>set (es @ [e]). hdr_Typeflag x = TypeReg \<and> q = T x)" by auto
    qed
    have J3: "\<forall>q. node_at (fs s3) q = Some Dir \<longrightarrow>
              node_at f q = Some Dir \<or> (\<exists>x\<in>set (es @ [e]). hdr_Typeflag x = TypeDir \<and> prefix q (T x))"
    proof (intro allI impI)
      fix q assume dq: "node_at (fs s3) q = Some Dir"
      show "node_at f q = Some Dir
          \<or> (\<exists>x\<in>set (es @ [e]). hdr_Typeflag x = TypeDir \<and> prefix q (T x))"
      proof (cases "node_at (fs s3) q = node_at (fs s2) q")
        case True
        with dq I3 show ?thesis by auto
      next
        case False
        from mkdirs_changes [OF False [unfolded f3]] have "prefix q (T e)" by simp
        with dir show ?thesis by auto
      qed
    qed
    have J4: "\<forall>x\<in>set (es @ [e]). hdr_Typeflag x = TypeDir \<longrightarrow>
              (\<forall>q. prefix q (T x) \<longrightarrow> node_at (fs s3) q = Some Dir)"
    proof (intro ballI allI impI)
      fix x q assume x: "x \<in> set (es @ [e])" and dx: "hdr_Typeflag x = TypeDir"
        and q: "prefix q (T x)"
      show "node_at (fs s3) q = Some Dir"
      proof (cases "x \<in> set es")
        case True
        with I4 dx q have "node_at (fs s2) q = Some Dir" by blast
        with keep [of q] show ?thesis by simp
      next
        case False
        with x have "x = e" by simp
        with q have "q \<in> set (prefixes (T e))" by simp
        from mkdirs_makes [OF _ this, of "fs s2"] nofile f3 show ?thesis by simp
      qed
    qed
    have J5: "\<forall>x\<in>set (es @ [e]). hdr_Typeflag x = TypeReg \<longrightarrow>
              node_at (fs s3) (T x) = Some (File (payload x))"
    proof (intro ballI impI)
      fix x assume x: "x \<in> set (es @ [e])" and rx: "hdr_Typeflag x = TypeReg"
      from rx dir have "x \<noteq> e" by auto
      with x have "x \<in> set es" by simp
      with I5 rx have "node_at (fs s2) (T x) = Some (File (payload x))" by blast
      with keep [of "T x"] show "node_at (fs s3) (T x) = Some (File (payload x))" by simp
    qed
    from l3 J1 J2 J3 J4 J5 show ?thesis unfolding T_def f_def by blast
  next
    assume reg: "hdr_Typeflag e = TypeReg"
    from P reg have pe: "payload_err e = None" by simp
    have c1: "\<forall>q. strict_prefix q (T e) \<longrightarrow> \<not> is_File (node_at (fs s2) q)"
    proof (intro allI impI notI)
      fix q assume q: "strict_prefix q (T e)" and fl: "is_File (node_at (fs s2) q)"
      from I2 fl have "is_File (node_at f q) \<or> (\<exists>x\<in>set es. hdr_Typeflag x = TypeReg \<and> q = T x)"
        by blast
      then show False
      proof
        assume "is_File (node_at f q)"
        with FF reg q show False by simp
      next
        assume "\<exists>x\<in>set es. hdr_Typeflag x = TypeReg \<and> q = T x"
        with NC2 q show False by (auto simp: strict_prefix_def)
      qed
    qed
    have c2: "node_at (fs s2) (butlast (T e)) \<noteq> None"
    proof -
      from PAe [OF reg] have "node_at (fs s2) (butlast (T e)) = Some Dir"
      proof
        assume "node_at f (butlast (T e)) = Some Dir"
        with I1 show ?thesis by blast
      next
        assume "\<exists>x\<in>set es. hdr_Typeflag x = TypeDir \<and> prefix (butlast (T e)) (T x)"
        with I4 show ?thesis by blast
      qed
      then show ?thesis by simp
    qed
    have c3: "node_at (fs s2) (T e) \<noteq> Some Dir"
    proof
      assume "node_at (fs s2) (T e) = Some Dir"
      with I3 have "node_at f (T e) = Some Dir
          \<or> (\<exists>x\<in>set es. hdr_Typeflag x = TypeDir \<and> prefix (T e) (T x))" by blast
      then show False
      proof
        assume "node_at f (T e) = Some Dir"
        with FF reg show False by simp
      next
        assume "\<exists>x\<in>set es. hdr_Typeflag x = TypeDir \<and> prefix (T e) (T x)"
        with NC1 [OF reg] show False by blast
      qed
    qed
    from c3 have ne: "T e \<noteq> []" by auto
    from entry_Reg_ok [OF nfk nfk reg pe jn c1 [unfolded Te] c2 [unfolded Te] c3 [unfolded Te]]
    obtain s3 where e3: "extractTarGzFile_entry env d e s2 = (Inr (), s3)"
      and f3: "fs s3 = AList.update (T e) (File (payload e)) (fs s2)" unfolding Te by blast
    from l e3 have l3: "extractTarGzFile_loop env d (es @ [e]) None s = (Inr (), s3)"
      by (auto simp: loop_snoc_Inr)
    have n3: "node_at (fs s3) q = (if q = T e then Some (File (payload e)) else node_at (fs s2) q)"
      for q using ne by (simp add: f3 node_at_update)
    have J1: "\<forall>q. node_at f q = Some Dir \<longrightarrow> node_at (fs s3) q = Some Dir"
      using I1 c3 by (auto simp: n3)
    have J2: "\<forall>q. is_File (node_at (fs s3) q) \<longrightarrow>
              is_File (node_at f q) \<or> (\<exists>x\<in>set (es @ [e]). hdr_Typeflag x = TypeReg \<and> q = T x)"
      using I2 reg by (auto simp: n3 split: if_splits)
    have J3: "\<forall>q. node_at (fs s3) q = Some Dir \<longrightarrow>
              node_at f q = Some Dir \<or> (\<exists>x\<in>set (es @ [e]). hdr_Typeflag x = TypeDir \<and> prefix q (T x))"
      using I3 by (auto simp: n3 split: if_splits)
    have J4: "\<forall>x\<in>set (es @ [e]). hdr_Typeflag x = TypeDir \<longrightarrow>
              (\<forall>q. prefix q (T x) \<longrightarrow> node_at (fs s3) q = Some Dir)"
    proof (intro ballI allI impI)
      fix x q assume x: "x \<in> set (es @ [e])" and dx: "hdr_Typeflag x = TypeDir"
        and q: "prefix q (T x)"
      from dx reg have "x \<noteq> e" by auto
      with x have xs: "x \<in> set es" by simp
      with I4 dx q have "node_at (fs s2) q = Some Dir" by blast
      moreover from NC1 [OF reg xs] q have "q \<noteq> T e" by auto
      ultimately show "node_at (fs s3) q = Some Dir" by (simp add: n3)
    qed
    have J5: "\<forall>x\<in>set (es @ [e]). hdr_Typeflag x = TypeReg \<longrightarrow>
              node_at (fs s3) (T x) = Some (File (payload x))"
    proof (intro ballI impI)
      fix x assume x: "x \<in> set (es @ [e])" and rx: "hdr_Typeflag x = TypeReg"
      show "node_at (fs s3) (T x) = Some (File (payload x))"
      proof (cases "x \<in> set es")
        case True
        with I5 rx have "node_at (fs s2) (T x) = Some (File (payload x))" by blast
        moreover from NC2 [OF rx True] have "T x \<noteq> T e" by auto
        ultimately show ?thesis by (simp add: n3)
      next
        case False
        with x have "x = e" by simp
        then show ?thesis by (simp add: n3)
      qed
    qed
    from l3 J1 J2 J3 J4 J5 show ?thesis unfolding T_def f_def by blast
  qed
qed

lemma os_Open_ok:
  "faults env (clock s) = None \<Longrightarrow> p \<noteq> [] \<Longrightarrow> \<not> blocked (fs s) (resolve env p) \<Longrightarrow>
   node_at (fs s) (resolve env p) = Some nd \<Longrightarrow> os_Open env p s = (Inr nd, tick s)"
  by (simp add: os_Open_def)

text \<open>
  C3 (as amended). Take an archive, read from a file that no entry overwrites, with
  only directory entries and regular file entries whose joined paths stay under the
  destination directory. Suppose that no file system call fails for a reason of its
  own, that every payload can be read, that the directory of every regular file
  entry exists beforehand or is a directory made by an earlier directory entry, that
  the path of a regular file entry is neither the path nor an ancestor of the path
  of another entry, and that the file system holds no file where an entry needs a
  directory and no directory where an entry needs a file. Then the extraction
  succeeds, every directory entry's path and all its ancestors are directories
  afterwards, and every regular file entry's path holds exactly the entry's payload.
\<close>

theorem extraction_fidelity:
  assumes "\<forall>k. faults env k = None"
    and "d \<noteq> []" and "p \<noteq> []"
    and "\<not> blocked (fs s) (resolve env p)"
    and "node_at (fs s) (resolve env p) = Some (File b)"
    and "targz_Decode env b = TarStream es None"
    and "\<forall>e\<in>set es. hdr_Typeflag e = TypeDir \<or> hdr_Typeflag e = TypeReg"
    and "\<forall>e\<in>set es. prefix (resolve env d) (entry_target env d e)"
    and "\<forall>e\<in>set es. hdr_Typeflag e = TypeReg \<longrightarrow>
           payload_err e = None \<and> entry_target env d e \<noteq> resolve env p"
    and "\<forall>e\<in>set es. hdr_Typeflag e = TypeDir \<longrightarrow>
           (\<forall>q. prefix q (entry_target env d e) \<longrightarrow> \<not> is_File (node_at (fs s) q))"
    and "\<forall>e\<in>set es. hdr_Typeflag e = TypeReg \<longrightarrow>
           node_at (fs s) (entry_target env d e) \<noteq> Some Dir
           \<and> (\<forall>q. strict_prefix q (entry_target env d e) \<longrightarrow> \<not> is_File (node_at (fs s) q))"
    and "\<forall>i<length es. hdr_Typeflag (es ! i) = TypeReg \<longrightarrow>
           node_at (fs s) (butlast (entry_target env d (es ! i))) = Some Dir
           \<or> (\<exists>j<i. hdr_Typeflag (es ! j) = TypeDir
                 \<and> prefix (butlast (entry_target env d (es ! i))) (entry_target env d (es ! j)))"
    and "\<forall>i<length es. \<forall>j<length es. hdr_Typeflag (es ! i) = TypeReg \<and> j \<noteq> i \<longrightarrow>
           \<not> prefix (entry_target env d (es ! i)) (entry_target env d (es ! j))"
  shows "\<exists>s'. extractTarGzFile env p d s = (Inr (), s')
           \<and> (\<forall>e\<in>set es. hdr_Typeflag e = TypeDir \<longrightarrow>
                 (\<forall>q. prefix q (entry_target env d e) \<longrightarrow> node_at (fs s') q = Some Dir))
           \<and> (\<forall>e\<in>set es. hdr_Typeflag e = TypeReg \<longrightarrow>
                 node_at (fs s') (entry_target env d e) = Some (File (payload e)))"
proof -
  from assms(1) have nf: "faults env (clock s) = None" by simp
  from os_Open_ok [OF nf assms(3,4,5)]
  have o: "os_Open env p s = (Inr (File b), tick s)" .
  from assms(6) have g: "gzip_NewReader env (File b) = Inr (es, None)"
    by (simp add: gzip_NewReader_def)
  from o g have x: "extractTarGzFile env p d s = extractTarGzFile_loop env d es None (tick s)"
    by (simp add: extractTarGzFile_def)
  from assms(9) have pe: "\<forall>e\<in>set es. hdr_Typeflag e = TypeReg \<longrightarrow> payload_err e = None" by simp
  from loop_fidelity [OF assms(1,2), of es "tick s"] assms(7) pe assms(10,11,12,13)
  obtain s' where "extractTarGzFile_loop env d es None (tick s) = (Inr (), s')"
    and "\<forall>e\<in>set es. hdr_Typeflag e = TypeDir \<longrightarrow>
              (\<forall>q. prefix q (entry_target env d e) \<longrightarrow> node_at (fs s') q = Some Dir)"
    and "\<forall>e\<in>set es. hdr_Typeflag e = TypeReg \<longrightarrow>
              node_at (fs s') (entry_target env d e) = Some (File (payload e))"
    by auto
  with x show ?thesis by auto
qed

lemma all_prefix_iff: "(\<forall>q. prefix q c \<longrightarrow> P q) \<longleftrightarrow> (\<forall>q\<in>set (prefixes c). P q)"
  by (auto simp: in_set_prefixes)

lemma all_strict_prefix_iff:
  "(\<forall>q. strict_prefix q c \<longrightarrow> P q) \<longleftrightarrow> c = [] \<or> (\<forall>q\<in>set (prefixes (butlast c)). P q)"
proof (cases c rule: rev_cases)
  case Nil
  then show ?thesis by simp
next
  case (snoc ys y)
  have "strict_prefix q (ys @ [y]) \<longleftrightarrow> prefix q ys" for q
    by (auto simp: strict_prefix_def dest: prefix_length_le)
  with snoc show ?thesis by (auto simp: in_set_prefixes)
qed

lemma tree_targets:
  "entry_target (demo_env r a) ''/h/d'' entry_dir = [''h'', ''d'', ''bin'']"
  "entry_target (demo_env r a) ''/h/d'' entry_run = [''h'', ''d'', ''bin'', ''run'']"
  "entry_target (demo_env r a) ''/h/d'' entry_docdir
     = [''h'', ''d'', ''share'', ''doc'']"
  "entry_target (demo_env r a) ''/h/d'' entry_doc
     = [''h'', ''d'', ''share'', ''doc'', ''readme'']"
  "resolve (demo_env r a) ''/h/d'' = [''h'', ''d'']"
  "resolve (demo_env r a) ''/h/d/a.tar.gz'' = [''h'', ''d'', ''a.tar.gz'']"
  by (simp_all add: entry_target_def resolve_def splitSlash_def Clean_def Join.simps demo_env_def
      entry_dir_def entry_run_def entry_docdir_def entry_doc_def)

lemma tree_flags:
  "hdr_Typeflag entry_dir = TypeDir" "hdr_Typeflag entry_run = TypeReg"
  "hdr_Typeflag entry_docdir = TypeDir" "hdr_Typeflag entry_doc = TypeReg"
  "payload_err entry_run = None" "payload_err entry_doc = None"
  "payload entry_run = ''ok''" "payload entry_doc = ''hi''"
  by (simp_all add: entry_dir_def entry_run_def entry_docdir_def entry_doc_def)

theorem extraction_fidelity_witness:
  "fst (extractTarGzFile (demo_env release_scenario (TarStream archive_tree None))
          ''/h/d/a.tar.gz'' ''/h/d'' (demo_state fs_a)) = Inr ()
   \<and> node_at (fs (snd (extractTarGzFile (demo_env release_scenario (TarStream archive_tree None))
          ''/h/d/a.tar.gz'' ''/h/d'' (demo_state fs_a)))) [''h'', ''d'', ''bin''] = Some Dir
   \<and> node_at (fs (snd (extractTarGzFile (demo_env release_scenario (TarStream archive_tree None))
          ''/h/d/a.tar.gz'' ''/h/d'' (demo_state fs_a)))) [''h'', ''d'', ''bin'', ''run'']
       = Some (File ''ok'')
   \<and> node_at (fs (snd (extractTarGzFile (demo_env release_scenario (TarStream archive_tree None))
          ''/h/d/a.tar.gz'' ''/h/d'' (demo_state fs_a)))) [''h'', ''d'', ''share''] = Some Dir
   \<and> node_at (fs (snd (extractTarGzFile (demo_env release_scenario (TarStream archive_tree None))
          ''/h/d/a.tar.gz'' ''/h/d'' (demo_state fs_a)))) [''h'', ''d'', ''share'', ''doc''] = Some Dir
   \<and> node_at (fs (snd (extractTarGzFile (demo_env release_scenario (TarStream archive_tree None))
          ''/h/d/a.tar.gz'' ''/h/d'' (demo_state fs_a)))) [''h'', ''d'', ''share'', ''doc'', ''readme'']
       = Some (File ''hi'')"
proof -
  let ?E = "demo_env release_scenario (TarStream archive_tree None)"
  let ?S = "demo_state fs_a"
  note tg = tree_targets
  have fsS: "fs ?S = fs_a" by (simp add: demo_state_def)
  have na: "node_at fs_a q = (if q = [] \<or> q = [''h''] \<or> q = [''h'', ''d''] then Some Dir
                else if q = [''h'', ''d'', ''a.tar.gz''] then Some (File ''gz'') else None)" for q
    by (auto simp: node_at_def fs_a_def)
  have h1: "\<forall>k. faults ?E k = None" by (simp add: demo_env_def)
  have h2: "''/h/d'' \<noteq> []" and h3: "''/h/d/a.tar.gz'' \<noteq> []" by simp_all
  have h4: "\<not> blocked (fs ?S) (resolve ?E ''/h/d/a.tar.gz'')"
    by (simp add: tg fsS blocked_def na)
  have h5: "node_at (fs ?S) (resolve ?E ''/h/d/a.tar.gz'') = Some (File ''gz'')"
    by (simp add: tg fsS na)
  have h6: "targz_Decode ?E ''gz'' = TarStream archive_tree None" by (simp add: demo_env_def)
  have h7: "\<forall>e\<in>set archive_tree. hdr_Typeflag e = TypeDir \<or> hdr_Typeflag e = TypeReg"
    by (simp add: archive_tree_def tree_flags)
  have h8: "\<forall>e\<in>set archive_tree. prefix (resolve ?E ''/h/d'') (entry_target ?E ''/h/d'' e)"
    by (simp add: archive_tree_def tg)
  have h9: "\<forall>e\<in>set archive_tree. hdr_Typeflag e = TypeReg \<longrightarrow>
           payload_err e = None \<and> entry_target ?E ''/h/d'' e \<noteq> resolve ?E ''/h/d/a.tar.gz''"
    by (simp add: archive_tree_def tg tree_flags)
  have h10: "\<forall>e\<in>set archive_tree. hdr_Typeflag e = TypeDir \<longrightarrow>
           (\<forall>q. prefix q (entry_target ?E ''/h/d'' e) \<longrightarrow> \<not> is_File (node_at (fs ?S) q))"
    unfolding all_prefix_iff by (simp add: archive_tree_def tg tree_flags fsS na)
  have h11: "\<forall>e\<in>set archive_tree. hdr_Typeflag e = TypeReg \<longrightarrow>
           node_at (fs ?S) (entry_target ?E ''/h/d'' e) \<noteq> Some Dir
           \<and> (\<forall>q. strict_prefix q (entry_target ?E ''/h/d'' e) \<longrightarrow> \<not> is_File (node_at (fs ?S) q))"
    unfolding all_strict_prefix_iff by (simp add: archive_tree_def tg tree_flags fsS na)
  have len: "length archive_tree = Suc (Suc (Suc (Suc 0)))" by (simp add: archive_tree_def)
  have nth: "archive_tree ! 0 = entry_dir" "archive_tree ! Suc 0 = entry_run"
    "archive_tree ! Suc (Suc 0) = entry_docdir" "archive_tree ! Suc (Suc (Suc 0)) = entry_doc"
    by (simp_all add: archive_tree_def)
  have h12: "\<forall>i<length archive_tree. hdr_Typeflag (archive_tree ! i) = TypeReg \<longrightarrow>
           node_at (fs ?S) (butlast (entry_target ?E ''/h/d'' (archive_tree ! i))) = Some Dir
           \<or> (\<exists>j<i. hdr_Typeflag (archive_tree ! j) = TypeDir
                 \<and> prefix (butlast (entry_target ?E ''/h/d'' (archive_tree ! i)))
                     (entry_target ?E ''/h/d'' (archive_tree ! j)))"
    unfolding len by (simp add: All_less_Suc Ex_less_Suc nth tg tree_flags fsS na)
  have h13: "\<forall>i<length archive_tree. \<forall>j<length archive_tree.
           hdr_Typeflag (archive_tree ! i) = TypeReg \<and> j \<noteq> i \<longrightarrow>
           \<not> prefix (entry_target ?E ''/h/d'' (archive_tree ! i))
               (entry_target ?E ''/h/d'' (archive_tree ! j))"
    unfolding len by (simp add: All_less_Suc nth tg tree_flags)
  from extraction_fidelity [OF h1 h2 h3 h4 h5 h6 h7 h8 h9 h10 h11 h12 h13]
  obtain s' where x: "extractTarGzFile ?E ''/h/d/a.tar.gz'' ''/h/d'' ?S = (Inr (), s')"
    and D: "\<forall>e\<in>set archive_tree. hdr_Typeflag e = TypeDir \<longrightarrow>
                 (\<forall>q. prefix q (entry_target ?E ''/h/d'' e) \<longrightarrow> node_at (fs s') q = Some Dir)"
    and F: "\<forall>e\<in>set archive_tree. hdr_Typeflag e = TypeReg \<longrightarrow>
                 node_at (fs s') (entry_target ?E ''/h/d'' e) = Some (File (payload e))"
    by blast
  from D [unfolded all_prefix_iff] F
  have "node_at (fs s') [''h'', ''d'', ''bin''] = Some Dir
      \<and> node_at (fs s') [''h'', ''d'', ''bin'', ''run''] = Some (File ''ok'')
      \<and> node_at (fs s') [''h'', ''d'', ''share''] = Some Dir
      \<and> node_at (fs s') [''h'', ''d'', ''share'', ''doc''] = Some Dir
      \<and> node_at (fs s') [''h'', ''d'', ''share'', ''doc'', ''readme''] = Some (File ''hi'')"
    by (simp add: archive_tree_def tg tree_flags)
  then show ?thesis by (simp add: x)
qed

text \<open>
  The claim as stated fails for an archive that holds a regular file without an
  entry for its directory: both entries are of the two kinds and stay under the
  destination, and the extraction fails at \<^verbatim>\<open>os.Create\<close>.
\<close>

theorem extraction_fidelity_counterexample:
  "hdr_Typeflag entry_dir = TypeDir \<and> hdr_Typeflag entry_orphan = TypeReg
   \<and> resolve (demo_env release_scenario (TarStream [entry_dir, entry_orphan] None)) ''/h/d''
       = [''h'', ''d'']
   \<and> entry_target (demo_env release_scenario (TarStream [entry_dir, entry_orphan] None)) ''/h/d''
        entry_dir = [''h'', ''d'', ''bin'']
   \<and> entry_target (demo_env release_scenario (TarStream [entry_dir, entry_orphan] None)) ''/h/d''
        entry_orphan = [''h'', ''d'', ''lib'', ''so'']
   \<and> extractTarGzFile (demo_env release_scenario (TarStream [entry_dir, entry_orphan] None))
        ''/h/d/a.tar.gz'' ''/h/d'' (demo_state fs_a)
       = (Inl (CreateError ENOENT),
          \<lparr>fs = fs_a @ [([''h'', ''d'', ''bin''], Dir)], clock = 3,
           net_log = [], stdout = [], stderr = []\<rparr>)"
  by (simp add: extractTarGzFile_def os_Open_def gzip_NewReader_def run_defs Join.simps
      entry_target_def entry_dir_def entry_orphan_def fs_a_def)

end
